theory Spec2Isabelle
  imports Complex_Main
begin

section \<open>Python values shared by both modules\<close>

text \<open>
  Exceptions that the modelled code can raise. \<open>RuntimeError\<close> carries its message, as
  the two \<^verbatim>\<open>raise RuntimeError(...)\<close> statements of \<^verbatim>\<open>CodexExecRunner.run\<close>
  differ only in the message.
\<close>

datatype error = IndexError | ValueError | AttributeError | RuntimeError string

text \<open>
  \<^verbatim>\<open>sep.join(xs)\<close> on a list of strings.
\<close>

fun str_join :: "string \<Rightarrow> string list \<Rightarrow> string" where
  "str_join sep [] = []"
| "str_join sep [x] = x"
| "str_join sep (x # y # ys) = x @ sep @ str_join sep (y # ys)"

text \<open>
  A \<^verbatim>\<open>dict\<close> is an association list in insertion order (Python dictionaries iterate in
  insertion order). \<open>dict_get\<close> is \<^verbatim>\<open>d.get(k)\<close>, \<open>dict_set\<close> is \<^verbatim>\<open>d[k] = v\<close>
  (an existing key keeps its position, a new key goes to the end), \<open>dict_del\<close> is
  \<^verbatim>\<open>del d[k]\<close> for a key that is present.
\<close>

type_synonym ('k, 'v) dict = "('k \<times> 'v) list"

definition dict_get :: "('k, 'v) dict \<Rightarrow> 'k \<Rightarrow> 'v option" where
  "dict_get d k = map_of d k"

fun dict_set :: "('k, 'v) dict \<Rightarrow> 'k \<Rightarrow> 'v \<Rightarrow> ('k, 'v) dict" where
  "dict_set [] k v = [(k, v)]"
| "dict_set ((k', v') # d) k v = (if k' = k then (k, v) # d else (k', v') # dict_set d k v)"

definition dict_del :: "('k, 'v) dict \<Rightarrow> 'k \<Rightarrow> ('k, 'v) dict" where
  "dict_del d k = filter (\<lambda>kv. fst kv \<noteq> k) d"


section \<open>Python floats\<close>

text \<open>
  A Python \<^verbatim>\<open>float\<close> is an IEEE 754 binary64 number: not-a-number, an infinity, or a
  finite value \<open>m \<cdot> 2\<^sup>e\<close>, written \<open>Finite m e\<close>. The two zeros are not told apart:
  the code only adds floats, divides one by \<^verbatim>\<open>1000.0\<close> and compares them, and none
  of these gives different answers for \<^verbatim>\<open>0.0\<close> and \<^verbatim>\<open>-0.0\<close>.
\<close>

datatype pyfloat = NaN | NegInf | Finite int int | PosInf

definition pow2 :: "int \<Rightarrow> rat" where
  "pow2 k = (if 0 \<le> k then 2 ^ nat k else 1 / 2 ^ nat (- k))"

text \<open>The rational number that \<open>Finite m e\<close> denotes.\<close>

definition fval :: "int \<Rightarrow> int \<Rightarrow> rat" where
  "fval m e = of_int m * pow2 e"

text \<open>
  \<^verbatim>\<open>a <= b\<close> and \<^verbatim>\<open>a < b\<close> on floats: false as soon as one side is not-a-number.
\<close>

fun float_le :: "pyfloat \<Rightarrow> pyfloat \<Rightarrow> bool" where
  "float_le NaN _ = False"
| "float_le _ NaN = False"
| "float_le NegInf _ = True"
| "float_le _ PosInf = True"
| "float_le PosInf _ = False"
| "float_le _ NegInf = False"
| "float_le (Finite m1 e1) (Finite m2 e2) = (fval m1 e1 \<le> fval m2 e2)"

fun float_lt :: "pyfloat \<Rightarrow> pyfloat \<Rightarrow> bool" where
  "float_lt NaN _ = False"
| "float_lt _ NaN = False"
| "float_lt PosInf _ = False"
| "float_lt _ NegInf = False"
| "float_lt NegInf _ = True"
| "float_lt _ PosInf = True"
| "float_lt (Finite m1 e1) (Finite m2 e2) = (fval m1 e1 < fval m2 e2)"

text \<open>
  Rounding a positive ratio \<open>n / d\<close> to the nearest binary64 number, ties to the even
  significand. \<open>bit_length\<close> is the number of binary digits, \<open>floor_log2 n d\<close> the
  exponent of the leading bit of \<open>n / d\<close>. The unit in the last place is
  \<open>2\<^sup>q\<close> with 53 significant bits for normal numbers and \<open>q = -1074\<close> for subnormal
  ones; a result of \<open>2\<^sup>1\<^sup>0\<^sup>2\<^sup>4\<close> or more is infinity. \<open>odd_part\<close> writes the result
  with an odd significand, so that equal results are equal terms.
\<close>

function bit_length :: "int \<Rightarrow> int" where
  "bit_length n = (if n \<le> 0 then 0 else 1 + bit_length (n div 2))"
  by auto
termination
  by (relation "measure nat") auto

declare bit_length.simps [simp del]

function odd_part :: "int \<Rightarrow> int \<Rightarrow> pyfloat" where
  "odd_part n q =
     (if n = 0 then Finite 0 0
      else if even n then odd_part (n div 2) (q + 1)
      else Finite n q)"
  by auto
termination
  by (relation "measure (\<lambda>(n, q). nat \<bar>n\<bar>)") auto

declare odd_part.simps [simp del]

definition floor_log2 :: "int \<Rightarrow> int \<Rightarrow> int" where
  "floor_log2 n d =
     (let k = bit_length n - bit_length d
      in if (if 0 \<le> k then d * 2 ^ nat k \<le> n else d \<le> n * 2 ^ nat (- k)) then k else k - 1)"

definition round_pos :: "int \<Rightarrow> int \<Rightarrow> pyfloat" where
  "round_pos n d =
     (let q = max (floor_log2 n d) (- 1022) - 52;
          num = (if 0 \<le> q then n else n * 2 ^ nat (- q));
          den = (if 0 \<le> q then d * 2 ^ nat q else d);
          f = num div den;
          r = num mod den;
          m = (if 2 * r < den then f else if den < 2 * r then f + 1
               else if even f then f else f + 1)
      in if 1024 < bit_length m + q then PosInf else odd_part m q)"

fun float_neg :: "pyfloat \<Rightarrow> pyfloat" where
  "float_neg NaN = NaN"
| "float_neg NegInf = PosInf"
| "float_neg PosInf = NegInf"
| "float_neg (Finite m e) = Finite (- m) e"

text \<open>Rounding any ratio \<open>n / d\<close> with \<open>d > 0\<close>.\<close>

definition round_ratio :: "int \<Rightarrow> int \<Rightarrow> pyfloat" where
  "round_ratio n d =
     (if n = 0 then Finite 0 0
      else if 0 < n then round_pos n d
      else float_neg (round_pos (- n) d))"

text \<open>\<^verbatim>\<open>a + b\<close> on floats: the exact sum, rounded.\<close>

definition finite_add :: "int \<Rightarrow> int \<Rightarrow> int \<Rightarrow> int \<Rightarrow> pyfloat" where
  "finite_add m1 e1 m2 e2 =
     (let e = min e1 e2;
          n = m1 * 2 ^ nat (e1 - e) + m2 * 2 ^ nat (e2 - e)
      in if 0 \<le> e then round_ratio (n * 2 ^ nat e) 1 else round_ratio n (2 ^ nat (- e)))"

fun float_add :: "pyfloat \<Rightarrow> pyfloat \<Rightarrow> pyfloat" where
  "float_add NaN _ = NaN"
| "float_add _ NaN = NaN"
| "float_add PosInf NegInf = NaN"
| "float_add NegInf PosInf = NaN"
| "float_add PosInf _ = PosInf"
| "float_add _ PosInf = PosInf"
| "float_add NegInf _ = NegInf"
| "float_add _ NegInf = NegInf"
| "float_add (Finite m1 e1) (Finite m2 e2) = finite_add m1 e1 m2 e2"

text \<open>\<^verbatim>\<open>x / 1000.0\<close>: the exact quotient, rounded.\<close>

definition finite_div_1000 :: "int \<Rightarrow> int \<Rightarrow> pyfloat" where
  "finite_div_1000 m e =
     (if 0 \<le> e then round_ratio (m * 2 ^ nat e) 1000
      else round_ratio m (1000 * 2 ^ nat (- e)))"

fun float_div_1000 :: "pyfloat \<Rightarrow> pyfloat" where
  "float_div_1000 (Finite m e) = finite_div_1000 m e"
| "float_div_1000 x = x"

text \<open>
  \<^verbatim>\<open>min\<close> over floats: the first element is kept until a later one is \<^verbatim>\<open><\<close> it.
\<close>

definition py_min :: "pyfloat \<Rightarrow> pyfloat list \<Rightarrow> pyfloat" where
  "py_min x xs = fold (\<lambda>y m. if float_lt y m then y else m) xs x"


section \<open>The topic debouncer (src/takopi/telegram/debouncer.py)\<close>

text \<open>
  Modelled from the spec: \<^verbatim>\<open>ResumeToken\<close> (takopi.model) and \<^verbatim>\<open>RunContext\<close>
  (takopi.context) are imported by the debouncer but their declarations are not part of
  the sources at hand; the spec gives their fields. \<^verbatim>\<open>EngineId\<close> is a string.
  The debouncer only copies these values.
\<close>

record ResumeToken =
  engine :: string
  token_value :: string

record RunContext =
  project :: "string option"
  branch :: "string option"

type_synonym EngineId = string

text \<open>
  \<^verbatim>\<open>PendingMessage\<close>. The fields \<^verbatim>\<open>text\<close> and \<^verbatim>\<open>context\<close> are named
  \<open>msg_text\<close> and \<open>run_context\<close> here, the source's names being reserved words.
  The timestamp is a Python \<^verbatim>\<open>float\<close>, as are the deadline of a pending batch and
  the window of the debouncer.
\<close>

record PendingMessage =
  chat_id :: int
  user_msg_id :: int
  msg_text :: string
  resume_token :: "ResumeToken option"
  run_context :: "RunContext option"
  thread_id :: "int option"
  engine_override :: "EngineId option"
  timestamp :: pyfloat

text \<open>
  \<^verbatim>\<open>MessageBatch\<close>. Fields that share a name with a field of \<^verbatim>\<open>PendingMessage\<close>
  carry the prefix \<open>batch_\<close>.
\<close>

record MessageBatch =
  batch_chat_id :: int
  first_msg_id :: int
  last_msg_id :: int
  combined_text :: string
  batch_resume_token :: "ResumeToken option"
  batch_context :: "RunContext option"
  batch_thread_id :: "int option"
  batch_engine_override :: "EngineId option"

type_synonym TopicKey = "int \<times> int option"

record PendingBatch =
  messages :: "PendingMessage list"
  deadline :: pyfloat

record TopicDebouncer =
  window_s :: pyfloat
  pending :: "(TopicKey, PendingBatch) dict"

text \<open>\<^verbatim>\<open>TopicDebouncer.__init__(window_ms)\<close>.\<close>

definition TopicDebouncer_init :: "pyfloat \<Rightarrow> TopicDebouncer" where
  "TopicDebouncer_init window_ms = \<lparr>window_s = float_div_1000 window_ms, pending = []\<rparr>"

definition newline :: string where
  "newline = [CHR 0x0A]"

text \<open>
  \<^verbatim>\<open>_finalize_batch\<close>. \<^verbatim>\<open>messages[0]\<close> raises \<^verbatim>\<open>IndexError\<close> on an empty list;
  every caller checks \<^verbatim>\<open>batch.messages\<close> first.
\<close>

definition finalize_batch :: "PendingBatch \<Rightarrow> error + MessageBatch" where
  "finalize_batch batch =
     (case messages batch of
        [] \<Rightarrow> Inl IndexError
      | first # _ \<Rightarrow>
          Inr \<lparr>batch_chat_id = chat_id first,
               first_msg_id = user_msg_id first,
               last_msg_id = user_msg_id (last (messages batch)),
               combined_text = str_join newline (map msg_text (messages batch)),
               batch_resume_token = resume_token first,
               batch_context = run_context first,
               batch_thread_id = thread_id first,
               batch_engine_override = engine_override first\<rparr>)"

text \<open>
  \<^verbatim>\<open>add_message\<close>: returns the batch (or \<^verbatim>\<open>None\<close>) and the debouncer after the call.
  With a window \<open>\<le> 0\<close> the message is returned as a batch of its own and nothing is
  stored. Otherwise the message is appended to the pending batch of its topic, which is
  created at the end of the dictionary when absent, and the deadline is overwritten.
\<close>

definition add_message :: "TopicDebouncer \<Rightarrow> PendingMessage \<Rightarrow> MessageBatch option \<times> TopicDebouncer" where
  "add_message self msg =
     (if float_le (window_s self) (Finite 0 0) then
        (Some \<lparr>batch_chat_id = chat_id msg,
               first_msg_id = user_msg_id msg,
               last_msg_id = user_msg_id msg,
               combined_text = msg_text msg,
               batch_resume_token = resume_token msg,
               batch_context = run_context msg,
               batch_thread_id = thread_id msg,
               batch_engine_override = engine_override msg\<rparr>, self)
      else
        let key = (chat_id msg, thread_id msg);
            now = timestamp msg;
            batch = (case dict_get (pending self) key of
                       None \<Rightarrow> \<lparr>messages = [], deadline = Finite 0 0\<rparr>
                     | Some b \<Rightarrow> b);
            batch' = batch\<lparr>messages := messages batch @ [msg],
                           deadline := float_add now (window_s self)\<rparr>
        in (None, self\<lparr>pending := dict_set (pending self) key batch'\<rparr>))"

text \<open>
  \<^verbatim>\<open>check_expired\<close>. The first loop walks the dictionary in order and collects the
  finalized batches and their keys; the second deletes the collected keys (each is a key
  of the dictionary, so \<^verbatim>\<open>del\<close> does not raise).
\<close>

fun expired_loop :: "pyfloat \<Rightarrow> (TopicKey, PendingBatch) dict \<Rightarrow> error + (MessageBatch list \<times> TopicKey list)" where
  "expired_loop now [] = Inr ([], [])"
| "expired_loop now ((key, batch) # rest) =
     (if float_le (deadline batch) now \<and> messages batch \<noteq> [] then
        (case finalize_batch batch of
           Inl e \<Rightarrow> Inl e
         | Inr b \<Rightarrow>
             (case expired_loop now rest of
                Inl e \<Rightarrow> Inl e
              | Inr (expired, expired_keys) \<Rightarrow> Inr (b # expired, key # expired_keys)))
      else expired_loop now rest)"

definition check_expired :: "TopicDebouncer \<Rightarrow> pyfloat \<Rightarrow> error + (MessageBatch list \<times> TopicDebouncer)" where
  "check_expired self now =
     (case expired_loop now (pending self) of
        Inl e \<Rightarrow> Inl e
      | Inr (expired, expired_keys) \<Rightarrow>
          Inr (expired, self\<lparr>pending := fold (\<lambda>key d. dict_del d key) expired_keys (pending self)\<rparr>))"

text \<open>
  \<^verbatim>\<open>next_deadline\<close>. \<^verbatim>\<open>min\<close> of an empty generator raises \<^verbatim>\<open>ValueError\<close>.
\<close>

definition next_deadline :: "TopicDebouncer \<Rightarrow> error + pyfloat option" where
  "next_deadline self =
     (if pending self = [] then Inr None
      else
        (case map deadline (filter (\<lambda>batch. messages batch \<noteq> []) (map snd (pending self))) of
           [] \<Rightarrow> Inl ValueError
         | d # ds \<Rightarrow> Inr (Some (py_min d ds))))"

text \<open>\<^verbatim>\<open>flush_all\<close>.\<close>

fun flush_loop :: "PendingBatch list \<Rightarrow> error + MessageBatch list" where
  "flush_loop [] = Inr []"
| "flush_loop (batch # rest) =
     (if messages batch \<noteq> [] then
        (case finalize_batch batch of
           Inl e \<Rightarrow> Inl e
         | Inr b \<Rightarrow> (case flush_loop rest of Inl e \<Rightarrow> Inl e | Inr batches \<Rightarrow> Inr (b # batches)))
      else flush_loop rest)"

definition flush_all :: "TopicDebouncer \<Rightarrow> error + (MessageBatch list \<times> TopicDebouncer)" where
  "flush_all self =
     (case flush_loop (map snd (pending self)) of
        Inl e \<Rightarrow> Inl e
      | Inr batches \<Rightarrow> Inr (batches, self\<lparr>pending := []\<rparr>))"

text \<open>\<^verbatim>\<open>flush_topic\<close>: \<^verbatim>\<open>pop(key, None)\<close> removes the key when it is present.\<close>

definition flush_topic :: "TopicDebouncer \<Rightarrow> TopicKey \<Rightarrow> error + (MessageBatch option \<times> TopicDebouncer)" where
  "flush_topic self key =
     (case dict_get (pending self) key of
        None \<Rightarrow> Inr (None, self)
      | Some batch \<Rightarrow>
          (let self' = self\<lparr>pending := dict_del (pending self) key\<rparr>
           in if messages batch = [] then Inr (None, self')
              else (case finalize_batch batch of
                      Inl e \<Rightarrow> Inl e
                    | Inr b \<Rightarrow> Inr (Some b, self'))))"


subsection \<open>Driving the debouncer\<close>

text \<open>
  The topic key that \<^verbatim>\<open>add_message\<close> builds from a message.
\<close>

definition topic_key :: "PendingMessage \<Rightarrow> TopicKey" where
  "topic_key msg = (chat_id msg, thread_id msg)"

text \<open>
  What a scheduler does with a debouncer: a message arrives (\<^verbatim>\<open>add_message\<close>) or the
  debouncer is polled at some instant (\<^verbatim>\<open>check_expired\<close>). \<open>run_events\<close> performs the
  calls in order and collects every batch that any of them returns.
\<close>

datatype event = Arrive PendingMessage | Poll pyfloat

fun run_events :: "TopicDebouncer \<Rightarrow> event list \<Rightarrow> error + (MessageBatch list \<times> TopicDebouncer)" where
  "run_events d [] = Inr ([], d)"
| "run_events d (Arrive msg # es) =
     (case add_message d msg of
        (out, d') \<Rightarrow>
          (case run_events d' es of
             Inl e \<Rightarrow> Inl e
           | Inr (bs, d'') \<Rightarrow> Inr ((case out of None \<Rightarrow> [] | Some b \<Rightarrow> [b]) @ bs, d'')))"
| "run_events d (Poll now # es) =
     (case check_expired d now of
        Inl e \<Rightarrow> Inl e
      | Inr (bs, d') \<Rightarrow>
          (case run_events d' es of
             Inl e \<Rightarrow> Inl e
           | Inr (bs', d'') \<Rightarrow> Inr (bs @ bs', d'')))"






text \<open>
  The batch that \<^verbatim>\<open>_finalize_batch\<close> builds from a non-empty list of messages, written
  with \<open>hd\<close> and \<open>last\<close>; only used on non-empty lists (\<open>finalize_batch_nonempty\<close>).
\<close>

definition batch_of :: "PendingMessage list \<Rightarrow> MessageBatch" where
  "batch_of ms =
     \<lparr>batch_chat_id = chat_id (hd ms),
      first_msg_id = user_msg_id (hd ms),
      last_msg_id = user_msg_id (last ms),
      combined_text = str_join newline (map msg_text ms),
      batch_resume_token = resume_token (hd ms),
      batch_context = run_context (hd ms),
      batch_thread_id = thread_id (hd ms),
      batch_engine_override = engine_override (hd ms)\<rparr>"

text \<open>
  The routing fields of a batch are those of the message \<open>first\<close>.
\<close>

definition first_wins :: "PendingMessage \<Rightarrow> MessageBatch \<Rightarrow> bool" where
  "first_wins first b \<longleftrightarrow>
     batch_resume_token b = resume_token first \<and>
     batch_context b = run_context first \<and>
     batch_engine_override b = engine_override first"

text \<open>
  Every pending batch holds at least one message. \<^verbatim>\<open>add_message\<close> is the only writer
  of pending batches and appends right after creating one, so the invariant holds in
  every state the class can reach (\<open>nonempty_batches_init\<close> and the preservation lemmas).
\<close>

definition nonempty_batches :: "TopicDebouncer \<Rightarrow> bool" where
  "nonempty_batches d = list_all (\<lambda>kv. messages (snd kv) \<noteq> []) (pending d)"

text \<open>
  \<^verbatim>\<open>_make_pending\<close> of tests/telegram/test_debouncer.py, used for concrete inputs.
\<close>

definition make_pending ::
  "int \<Rightarrow> int \<Rightarrow> string \<Rightarrow> int option \<Rightarrow> pyfloat \<Rightarrow> ResumeToken option \<Rightarrow> RunContext option
     \<Rightarrow> EngineId option \<Rightarrow> PendingMessage" where
  "make_pending c u t th ts tok ctx eng =
     \<lparr>chat_id = c, user_msg_id = u, msg_text = t, resume_token = tok, run_context = ctx,
      thread_id = th, engine_override = eng, timestamp = ts\<rparr>"


section \<open>The Codex runner (codex/codex_telegram_bridge/exec_bridge.py)\<close>

subsection \<open>JSON values\<close>

text \<open>
  What \<^verbatim>\<open>json.loads\<close> returns: \<^verbatim>\<open>None\<close>, a bool, an int, a float, a string, a
  list, or a dict (an association list read with \<open>map_of\<close>). \<open>JNull\<close> also stands for
  Python's \<^verbatim>\<open>None\<close> in the variable \<^verbatim>\<open>found_session\<close>.
\<close>

datatype json =
    JNull
  | JBool bool
  | JInt int
  | JFloat pyfloat
  | JStr string
  | JArr "json list"
  | JObj "(string \<times> json) list"

text \<open>Python truthiness, as used by \<^verbatim>\<open>if x\<close>, \<^verbatim>\<open>not x\<close> and \<^verbatim>\<open>x or y\<close>.\<close>

fun truthy :: "json \<Rightarrow> bool" where
  "truthy JNull = False"
| "truthy (JBool b) = b"
| "truthy (JInt i) = (i \<noteq> 0)"
| "truthy (JFloat x) = (case x of Finite m e \<Rightarrow> m \<noteq> 0 | _ \<Rightarrow> True)"
| "truthy (JStr s) = (s \<noteq> [])"
| "truthy (JArr xs) = (xs \<noteq> [])"
| "truthy (JObj kvs) = (kvs \<noteq> [])"

text \<open>\<^verbatim>\<open>d.get(k)\<close> on a dict: \<^verbatim>\<open>None\<close> when the key is absent.\<close>

definition py_get :: "(string \<times> json) list \<Rightarrow> string \<Rightarrow> json" where
  "py_get kvs k = (case map_of kvs k of None \<Rightarrow> JNull | Some v \<Rightarrow> v)"

text \<open>\<^verbatim>\<open>a or b\<close>.\<close>

definition py_or :: "json \<Rightarrow> json \<Rightarrow> json" where
  "py_or a b = (if truthy a then a else b)"

subsection \<open>The process and its streams\<close>

text \<open>
  One line of the process's standard output, by what the loop body makes of it:
  \<^verbatim>\<open>line.strip()\<close> is empty (\<open>Blank\<close>), \<^verbatim>\<open>json.loads\<close> raises
  \<^verbatim>\<open>JSONDecodeError\<close> (\<open>Undecodable\<close>), or \<^verbatim>\<open>json.loads\<close> returns a value
  (\<open>Decoded\<close>). \<^verbatim>\<open>json.loads\<close> is the standard library's and is not modelled.
\<close>

datatype stdout_line = Blank | Undecodable | Decoded json

text \<open>
  What the external process does in one invocation: the lines of its standard output, the
  lines of its error stream that the drain thread has collected, and its exit code.
\<close>

record proc_outcome =
  stdout :: "stdout_line list"
  stderr :: "string list"
  rc :: int

text \<open>
  The body of the \<^verbatim>\<open>for line in proc.stdout\<close> loop after decoding, on the pair
  \<^verbatim>\<open>(found_session, last_agent_text)\<close>. \<^verbatim>\<open>evt.get\<close> and \<^verbatim>\<open>item.get\<close> raise
  \<^verbatim>\<open>AttributeError\<close> when \<^verbatim>\<open>evt\<close> or \<^verbatim>\<open>item\<close> is not a dict; only
  \<^verbatim>\<open>JSONDecodeError\<close> is caught by the source.
\<close>

fun handle_event :: "json \<Rightarrow> json \<times> string option \<Rightarrow> error + (json \<times> string option)" where
  "handle_event (JObj evt) (found_session, last_agent_text) =
     (let found_session' =
            (if py_get evt ''type'' = JStr ''thread.started''
             then py_or (py_get evt ''thread_id'') found_session
             else found_session)
      in if py_get evt ''type'' = JStr ''item.completed'' then
           (case py_or (py_get evt ''item'') (JObj []) of
              JObj item \<Rightarrow>
                (if py_get item ''type'' = JStr ''agent_message'' then
                   (case py_get item ''text'' of
                      JStr t \<Rightarrow> Inr (found_session', Some t)
                    | _ \<Rightarrow> Inr (found_session', last_agent_text))
                 else Inr (found_session', last_agent_text))
            | _ \<Rightarrow> Inl AttributeError)
         else Inr (found_session', last_agent_text))"
| "handle_event _ _ = Inl AttributeError"

fun consume :: "stdout_line list \<Rightarrow> json \<times> string option \<Rightarrow> error + (json \<times> string option)" where
  "consume [] st = Inr st"
| "consume (Blank # ls) st = consume ls st"
| "consume (Undecodable # ls) st = consume ls st"
| "consume (Decoded evt # ls) st =
     (case handle_event evt st of Inl e \<Rightarrow> Inl e | Inr st' \<Rightarrow> consume ls st')"

subsection \<open>Messages\<close>

text \<open>\<^verbatim>\<open>str(n)\<close> for an integer, as the f-string formats \<^verbatim>\<open>rc\<close>.\<close>

definition digit_char :: "nat \<Rightarrow> char" where
  "digit_char n = ''0123456789'' ! n"

fun show_nat :: "nat \<Rightarrow> string" where
  "show_nat n = (if n < 10 then [digit_char n] else show_nat (n div 10) @ [digit_char (n mod 10)])"

declare show_nat.simps [simp del]

definition show_int :: "int \<Rightarrow> string" where
  "show_int i = (if i < 0 then CHR ''-'' # show_nat (nat (- i)) else show_nat (nat i))"

definition exec_failed_msg :: "int \<Rightarrow> string \<Rightarrow> string" where
  "exec_failed_msg code tail =
     ''codex exec failed (rc='' @ show_int code @ ''). stderr tail:'' @ newline @ tail"

definition no_session_msg :: string where
  "no_session_msg = ''codex exec finished but no session_id/thread_id was captured''"

definition no_agent_message :: string where
  "no_agent_message = ''(No agent_message captured from JSON stream.)''"

text \<open>\<^verbatim>\<open>"".join(stderr_lines[-200:])\<close>: the last 200 lines, or all of them when fewer.\<close>

definition stderr_tail :: "string list \<Rightarrow> string" where
  "stderr_tail stderr_lines = concat (drop (length stderr_lines - 200) stderr_lines)"

subsection \<open>\<^verbatim>\<open>CodexExecRunner\<close>\<close>

text \<open>
  The runner. \<open>locks\<close> holds the keys of \<^verbatim>\<open>_locks\<close> in insertion order (each key maps
  to a lock of its own).
\<close>

record CodexExecRunner =
  codex_cmd :: string
  workspace :: "string option"
  extra_args :: "string list"
  locks :: "string list"

text \<open>The argument vector that \<^verbatim>\<open>run\<close> passes to \<^verbatim>\<open>Popen\<close>.\<close>

definition run_args :: "CodexExecRunner \<Rightarrow> string option \<Rightarrow> string list" where
  "run_args self session_id =
     [codex_cmd self, ''exec'', ''--json''] @ extra_args self
     @ (case workspace self of
          None \<Rightarrow> []
        | Some w \<Rightarrow> if w \<noteq> [] then [''--cd'', w] else [])
     @ (case session_id of
          None \<Rightarrow> [''-'']
        | Some s \<Rightarrow> if s \<noteq> [] then [''resume'', s, ''-''] else [''-''])"

text \<open>\<^verbatim>\<open>found_session: Optional[str] = session_id\<close>.\<close>

definition session_json :: "string option \<Rightarrow> json" where
  "session_json session_id = (case session_id of None \<Rightarrow> JNull | Some s \<Rightarrow> JStr s)"

text \<open>
  The part of \<^verbatim>\<open>run\<close> after the process is started: the loop over standard output,
  then the exit code, the session id and the reply text.
\<close>

definition run_result :: "string option \<Rightarrow> proc_outcome \<Rightarrow> error + (json \<times> string)" where
  "run_result session_id out =
     (case consume (stdout out) (session_json session_id, None) of
        Inl e \<Rightarrow> Inl e
      | Inr (found_session, last_agent_text) \<Rightarrow>
          if rc out \<noteq> 0 then Inl (RuntimeError (exec_failed_msg (rc out) (stderr_tail (stderr out))))
          else if \<not> truthy found_session then Inl (RuntimeError no_session_msg)
          else Inr (found_session,
                    (case last_agent_text of
                       None \<Rightarrow> no_agent_message
                     | Some t \<Rightarrow> if t \<noteq> [] then t else no_agent_message)))"

text \<open>
  What one call does to the outside, in order: a per-session lock is taken or released, a
  process is started with an argument vector. The external process is a function from the
  argument vector and the prompt on its standard input to its outcome. Failures of the
  operating system (the command cannot be started, the pipe breaks) are not modelled.
\<close>

datatype action = Acquire string | Spawn "string list" | Release string

type_synonym process = "string list \<Rightarrow> string \<Rightarrow> proc_outcome"

definition run :: "CodexExecRunner \<Rightarrow> process \<Rightarrow> string \<Rightarrow> string option
    \<Rightarrow> (error + (json \<times> string)) \<times> action list" where
  "run self proc prompt session_id =
     (let args = run_args self session_id
      in (run_result session_id (proc args prompt), [Spawn args]))"

text \<open>
  \<^verbatim>\<open>_lock_for\<close>: the lock of a session id, created on first use. The guard lock makes
  the lookup and the insertion one step, which is what the function is here.
\<close>

definition lock_for :: "CodexExecRunner \<Rightarrow> string \<Rightarrow> CodexExecRunner" where
  "lock_for self session_id =
     (if session_id \<in> set (locks self) then self
      else self\<lparr>locks := locks self @ [session_id]\<rparr>)"

text \<open>
  \<^verbatim>\<open>run_serialized\<close>: the result, the runner afterwards and the actions of the call.
  \<^verbatim>\<open>with lock\<close> releases the lock on return and on an exception alike.
\<close>

definition run_serialized :: "CodexExecRunner \<Rightarrow> process \<Rightarrow> string \<Rightarrow> string option
    \<Rightarrow> (error + (json \<times> string)) \<times> CodexExecRunner \<times> action list" where
  "run_serialized self proc prompt session_id =
     (case session_id of
        None \<Rightarrow> (case run self proc prompt None of (res, acts) \<Rightarrow> (res, self, acts))
      | Some s \<Rightarrow>
          if s = [] then (case run self proc prompt None of (res, acts) \<Rightarrow> (res, self, acts))
          else
            (let self' = lock_for self s
             in case run self' proc prompt (Some s) of
                  (res, acts) \<Rightarrow> (res, self', [Acquire s] @ acts @ [Release s])))"

subsection \<open>Calls in several threads\<close>

text \<open>
  \<^verbatim>\<open>main\<close> submits calls of \<^verbatim>\<open>run_serialized\<close> to a thread pool. One call is the
  list of its actions followed by its return (\<open>None\<close>); each step carries the number of
  the call. Two calls that run concurrently perform their steps in some interleaving
  (\<open>shuffles\<close>) of the two lists.
\<close>

type_synonym step = "nat \<times> action option"




subsection \<open>Reading a stream\<close>

text \<open>
  The session id that a line reports: the \<^verbatim>\<open>thread_id\<close> of a \<^verbatim>\<open>thread.started\<close>
  event, when it is truthy.
\<close>

fun reported_id :: "stdout_line \<Rightarrow> json option" where
  "reported_id (Decoded (JObj evt)) =
     (if py_get evt ''type'' = JStr ''thread.started'' \<and> truthy (py_get evt ''thread_id'')
      then Some (py_get evt ''thread_id'') else None)"
| "reported_id _ = None"

definition reported_ids :: "stdout_line list \<Rightarrow> json list" where
  "reported_ids ls = List.map_filter reported_id ls"

text \<open>
  The reply text that a line carries: the \<^verbatim>\<open>text\<close> of an \<^verbatim>\<open>item.completed\<close> event
  whose item is an \<^verbatim>\<open>agent_message\<close> with a string \<^verbatim>\<open>text\<close>.
\<close>

fun agent_text :: "stdout_line \<Rightarrow> string option" where
  "agent_text (Decoded (JObj evt)) =
     (if py_get evt ''type'' = JStr ''item.completed'' then
        (case py_get evt ''item'' of
           JObj item \<Rightarrow>
             (if py_get item ''type'' = JStr ''agent_message'' then
                (case py_get item ''text'' of JStr t \<Rightarrow> Some t | _ \<Rightarrow> None)
              else None)
         | _ \<Rightarrow> None)
      else None)"
| "agent_text _ = None"

definition agent_texts :: "stdout_line list \<Rightarrow> string list" where
  "agent_texts ls = List.map_filter agent_text ls"

text \<open>
  The lines on which the loop body raises nothing: blank and undecodable lines, and
  decoded dicts whose \<^verbatim>\<open>item\<close>, on an \<^verbatim>\<open>item.completed\<close> event, is a dict or falsy.
\<close>

fun is_dict :: "json \<Rightarrow> bool" where
  "is_dict (JObj kvs) = True"
| "is_dict _ = False"

fun tolerated :: "stdout_line \<Rightarrow> bool" where
  "tolerated Blank = True"
| "tolerated Undecodable = True"
| "tolerated (Decoded (JObj evt)) =
     (py_get evt ''type'' \<noteq> JStr ''item.completed''
      \<or> \<not> truthy (py_get evt ''item'') \<or> is_dict (py_get evt ''item''))"
| "tolerated (Decoded _) = False"

text \<open>
  The lines that the stream schema tells the reader to ignore: blank lines, undecodable
  lines, and events whose \<^verbatim>\<open>type\<close> is neither of the two recognized ones.
\<close>

fun skipped :: "stdout_line \<Rightarrow> bool" where
  "skipped Blank = True"
| "skipped Undecodable = True"
| "skipped (Decoded (JObj evt)) =
     (py_get evt ''type'' \<noteq> JStr ''thread.started'' \<and> py_get evt ''type'' \<noteq> JStr ''item.completed'')"
| "skipped (Decoded _) = False"

text \<open>Events of the two recognized kinds, for concrete inputs.\<close>

definition thread_started :: "json \<Rightarrow> stdout_line" where
  "thread_started tid = Decoded (JObj [(''type'', JStr ''thread.started''), (''thread_id'', tid)])"

definition agent_message :: "json \<Rightarrow> stdout_line" where
  "agent_message t =
     Decoded (JObj [(''type'', JStr ''item.completed''),
                    (''item'', JObj [(''type'', JStr ''agent_message''), (''text'', t)])])"


section \<open>Concrete inputs\<close>

text \<open>
  The messages of \<^verbatim>\<open>test_multiple_rapid_messages_batched_together\<close> (window 200 ms,
  arrivals at the floats \<^verbatim>\<open>0.0\<close>, \<^verbatim>\<open>0.05\<close> and \<^verbatim>\<open>0.1\<close>, which are
  \<open>3602879701896397 \<cdot> 2\<^sup>-\<^sup>5\<^sup>6\<close> and \<open>3602879701896397 \<cdot> 2\<^sup>-\<^sup>5\<^sup>5\<close>).
\<close>

definition line1 :: PendingMessage where
  "line1 = make_pending 1 100 ''line1'' None (Finite 0 0) None None None"

definition line2 :: PendingMessage where
  "line2 = make_pending 1 101 ''line2'' None (Finite 3602879701896397 (- 56)) None None None"

definition line3 :: PendingMessage where
  "line3 = make_pending 1 102 ''line3'' None (Finite 3602879701896397 (- 55)) None None None"

text \<open>
  Two messages of one topic that disagree on resume token, context and engine override,
  as in the three \<^verbatim>\<open>..._from_first_message_preserved\<close> tests, a debouncer in
  which both are pending (window \<^verbatim>\<open>0.2\<close>, deadline \<^verbatim>\<open>0.25\<close>), and a message of
  another chat with routing fields of its own.
\<close>

definition first_msg :: PendingMessage where
  "first_msg = make_pending 1 100 ''first'' None (Finite 0 0)
     (Some \<lparr>engine = ''codex'', token_value = ''resume123''\<rparr>)
     (Some \<lparr>project = Some ''myproj'', branch = Some ''feat/test''\<rparr>)
     (Some ''claude'')"

definition second_msg :: PendingMessage where
  "second_msg = make_pending 1 101 ''second'' None (Finite 1 (- 3))
     (Some \<lparr>engine = ''other'', token_value = ''ignored''\<rparr>)
     (Some \<lparr>project = Some ''other'', branch = Some ''main''\<rparr>)
     (Some ''codex'')"

definition two_pending :: TopicDebouncer where
  "two_pending =
     \<lparr>window_s = Finite 3602879701896397 (- 54),
      pending = [((1, None), \<lparr>messages = [first_msg, second_msg], deadline = Finite 1 (- 2)\<rparr>)]\<rparr>"

definition other_msg :: PendingMessage where
  "other_msg = make_pending 2 300 ''elsewhere'' None (Finite 1 (- 2))
     None None (Some ''pi'')"



text \<open>A message stamped \<^verbatim>\<open>1e16\<close>, where adding \<^verbatim>\<open>0.25\<close> changes nothing.\<close>

definition far_msg :: PendingMessage where
  "far_msg = make_pending 1 100 ''hello'' None (Finite 152587890625 16) None None None"

text \<open>
  A runner with the default command and no workspace, and a process that prints one agent
  message, reports no session id and exits with code 0.
\<close>

definition codex_runner :: CodexExecRunner where
  "codex_runner = \<lparr>codex_cmd = ''codex'', workspace = None, extra_args = [], locks = []\<rparr>"

definition quiet_process :: process where
  "quiet_process args prompt = \<lparr>stdout = [agent_message (JStr ''hi'')], stderr = [], rc = 0\<rparr>"


section \<open>Facts about floats\<close>



lemma float_lt_not_le: "float_lt a b \<Longrightarrow> \<not> float_le b a"
  by (cases a; cases b) simp_all

lemma float_lt_imp_le: "float_lt a b \<Longrightarrow> float_le a b"
  by (cases a; cases b) simp_all




text \<open>
  The float arithmetic on the values that the examples use, as Python computes them:
  \<^verbatim>\<open>0.1 + 0.2 = 0.30000000000000004\<close>, \<^verbatim>\<open>0.7 + 0.2 = 0.8999999999999999\<close>,
  \<^verbatim>\<open>1e16 + 0.25 = 1e16\<close>, \<^verbatim>\<open>200 / 1000.0 = 0.2\<close> and \<^verbatim>\<open>250 / 1000.0 = 0.25\<close>.
\<close>

lemmas float_eval = finite_add_def finite_div_1000_def round_ratio_def round_pos_def
  floor_log2_def Let_def bit_length.simps odd_part.simps

lemma add_01_02:
  "finite_add 3602879701896397 (- 55) 3602879701896397 (- 54)
     = Finite 1351079888211149 (- 52)"
  by (simp add: float_eval)





lemma add_1e16_025:
  "finite_add 152587890625 16 1 (- 2) = Finite 152587890625 16"
  by (simp add: float_eval)

lemma add_0125_025:
  "finite_add 1 (- 3) 1 (- 2) = Finite 3 (- 3)"
  by (simp add: float_eval)

lemma div_200: "finite_div_1000 200 0 = Finite 3602879701896397 (- 54)"
  by (simp add: float_eval)

lemma div_250: "finite_div_1000 250 0 = Finite 1 (- 2)"
  by (simp add: float_eval)

lemma div_0: "finite_div_1000 0 0 = Finite 0 0"
  by (simp add: float_eval)

text \<open>
  A positive \<^verbatim>\<open>window_ms\<close> can give a window of zero: \<^verbatim>\<open>2 ** -1070 / 1000.0\<close> is
  below half of the smallest positive float and rounds to \<^verbatim>\<open>0.0\<close>.
\<close>

lemma bit_length_double: "0 < n \<Longrightarrow> bit_length (2 * n) = 1 + bit_length n"
  by (subst bit_length.simps) simp

lemma bit_length_shift: "0 < n \<Longrightarrow> bit_length (n * 2 ^ k) = bit_length n + int k"
proof (induction k)
  case 0
  then show ?case by simp
next
  case (Suc k)
  have "bit_length (n * 2 ^ Suc k) = bit_length (2 * (n * 2 ^ k))" by (simp add: mult.commute mult.left_commute)
  also have "\<dots> = 1 + bit_length (n * 2 ^ k)" using Suc.prems by (intro bit_length_double) simp
  finally show ?case using Suc by simp
qed

lemma bit_length_1000: "bit_length 1000 = 10"
  by (simp add: bit_length.simps)

lemma bit_length_1: "bit_length 1 = 1"
  by (simp add: bit_length.simps)

lemma tiny_window_underflows:
  "float_lt (Finite 0 0) (Finite 1 (- 1070))
   \<and> float_div_1000 (Finite 1 (- 1070)) = Finite 0 0"
proof -
  have bl: "bit_length (1000 * 2 ^ 1070) = 1080"
    using bit_length_shift [of 1000 1070] by (simp add: bit_length_1000)
  have fl: "floor_log2 1 (1000 * 2 ^ 1070) = - 1080"
    unfolding floor_log2_def bl bit_length_1 by (simp add: Let_def)
  have "round_pos 1 (1000 * 2 ^ 1070) = Finite 0 0"
    unfolding round_pos_def fl by (simp add: Let_def bit_length.simps odd_part.simps)
  then have "finite_div_1000 1 (- 1070) = Finite 0 0"
    by (simp add: finite_div_1000_def round_ratio_def)
  moreover have "float_lt (Finite 0 0) (Finite 1 (- 1070))"
    by (simp add: fval_def pow2_def)
  ultimately show ?thesis by simp
qed


section \<open>Facts about the debouncer\<close>

subsection \<open>Dictionaries\<close>

lemma dict_get_dict_set: "dict_get (dict_set d k v) k = Some v"
  by (induction d k v rule: dict_set.induct) (simp_all add: dict_get_def)

lemma dict_get_dict_set_other: "k' \<noteq> k \<Longrightarrow> dict_get (dict_set d k v) k' = dict_get d k'"
  by (induction d k v rule: dict_set.induct) (simp_all add: dict_get_def)

lemma distinct_dict_set:
  "distinct (map fst d) \<Longrightarrow> distinct (map fst (dict_set d k v))"
proof (induction d k v rule: dict_set.induct)
  case (1 k v)
  then show ?case by simp
next
  case (2 k' v' d k v)
  have "fst ` set (dict_set d k v) \<subseteq> insert k (fst ` set d)"
    by (induction d k v rule: dict_set.induct) auto
  then show ?case using 2 by auto
qed

lemma list_all_dict_set:
  "list_all P d \<Longrightarrow> P (k, v) \<Longrightarrow> list_all P (dict_set d k v)"
  by (induction d k v rule: dict_set.induct) auto

lemma list_all_fold_dict_del:
  "list_all P d \<Longrightarrow> list_all P (fold (\<lambda>k d. dict_del d k) ks d)"
proof (induction ks arbitrary: d)
  case Nil
  then show ?case by simp
next
  case (Cons k ks)
  have "list_all P (dict_del d k)" using Cons.prems by (simp add: dict_del_def list_all_iff)
  then show ?case using Cons.IH by simp
qed

subsection \<open>Single operations\<close>

text \<open>On a non-empty batch \<^verbatim>\<open>_finalize_batch\<close> raises nothing and returns \<open>batch_of\<close>.\<close>

lemma finalize_batch_nonempty:
  "messages b \<noteq> [] \<Longrightarrow> finalize_batch b = Inr (batch_of (messages b))"
  by (cases "messages b") (simp_all add: finalize_batch_def batch_of_def)


lemma first_wins_batch_of: "first_wins first (batch_of (first # rest))"
  by (simp add: first_wins_def batch_of_def)

text \<open>
  With a window that is not \<^verbatim>\<open><= 0\<close>, \<^verbatim>\<open>add_message\<close> returns nothing, appends the
  message at the end of its topic's pending batch, overwrites that batch's deadline, and
  leaves every other topic as it was.
\<close>

lemma add_message_appends:
  assumes "\<not> float_le (window_s d) (Finite 0 0)"
  shows "fst (add_message d msg) = None
       \<and> dict_get (pending (snd (add_message d msg))) (topic_key msg)
           = Some \<lparr>messages = (case dict_get (pending d) (topic_key msg) of
                                  None \<Rightarrow> [] | Some b \<Rightarrow> messages b) @ [msg],
                    deadline = float_add (timestamp msg) (window_s d)\<rparr>
       \<and> (\<forall>key. key \<noteq> topic_key msg \<longrightarrow>
             dict_get (pending (snd (add_message d msg))) key = dict_get (pending d) key)"
  using assms
  by (auto simp add: add_message_def Let_def topic_key_def dict_get_dict_set
        dict_get_dict_set_other split: option.splits)

lemma add_message_single:
  assumes "\<not> float_le (window_s d) (Finite 0 0)" "pending d = [(key, b)]" "topic_key msg = key"
  shows "add_message d msg =
           (None, d\<lparr>pending := [(key, \<lparr>messages = messages b @ [msg],
                                        deadline = float_add (timestamp msg) (window_s d)\<rparr>)]\<rparr>)"
  using assms by (auto simp add: add_message_def topic_key_def dict_get_def Let_def)

lemma add_message_fresh:
  assumes "\<not> float_le (window_s d) (Finite 0 0)" "pending d = []"
  shows "add_message d msg =
           (None, d\<lparr>pending := [(topic_key msg, \<lparr>messages = [msg],
                                        deadline = float_add (timestamp msg) (window_s d)\<rparr>)]\<rparr>)"
  using assms by (auto simp add: add_message_def topic_key_def dict_get_def Let_def)


lemma check_expired_single:
  assumes "pending d = [(key, b)]" "messages b \<noteq> []"
  shows "check_expired d now =
           (if float_le (deadline b) now then Inr ([batch_of (messages b)], d\<lparr>pending := []\<rparr>)
            else Inr ([], d))"
  using assms by (simp add: check_expired_def finalize_batch_nonempty dict_del_def)

lemma next_deadline_single:
  "pending d = [(key, b)] \<Longrightarrow> messages b \<noteq> [] \<Longrightarrow> next_deadline d = Inr (Some (deadline b))"
  by (simp add: next_deadline_def py_min_def)

text \<open>
  The two loops over the pending batches raise nothing. \<^verbatim>\<open>check_expired\<close> returns, in
  the order of the dictionary, one batch for each pending entry that is due, built from
  that entry's messages; \<^verbatim>\<open>flush_all\<close> one for each pending entry.
\<close>

lemma expired_loop_exact:
  "\<exists>ks. expired_loop now d =
     Inr (map (\<lambda>kv. batch_of (messages (snd kv)))
            (filter (\<lambda>kv. float_le (deadline (snd kv)) now \<and> messages (snd kv) \<noteq> []) d), ks)"
proof (induction d)
  case Nil
  then show ?case by simp
next
  case (Cons kv d)
  then show ?case by (cases kv) (auto simp add: finalize_batch_nonempty)
qed

lemma flush_loop_all:
  "flush_loop bs = Inr (map (\<lambda>b. batch_of (messages b)) (filter (\<lambda>b. messages b \<noteq> []) bs))"
  by (induction bs) (simp_all add: finalize_batch_nonempty)

subsection \<open>No pending batch is ever empty\<close>

lemma nonempty_batches_init: "nonempty_batches (TopicDebouncer_init window_ms)"
  by (simp add: nonempty_batches_def TopicDebouncer_init_def)

lemma nonempty_batches_add_message:
  "nonempty_batches d \<Longrightarrow> nonempty_batches (snd (add_message d msg))"
  by (simp add: nonempty_batches_def add_message_def Let_def list_all_dict_set)

lemma nonempty_batches_check_expired:
  "nonempty_batches d \<Longrightarrow> check_expired d now = Inr (bs, d') \<Longrightarrow> nonempty_batches d'"
  by (auto simp add: nonempty_batches_def check_expired_def list_all_fold_dict_del
           split: sum.splits)

lemma nonempty_batches_flush_all:
  "flush_all d = Inr (bs, d') \<Longrightarrow> nonempty_batches d'"
  by (auto simp add: nonempty_batches_def flush_all_def split: sum.splits)

lemma nonempty_batches_flush_topic:
  "nonempty_batches d \<Longrightarrow> flush_topic d key = Inr (b, d') \<Longrightarrow> nonempty_batches d'"
  by (auto simp add: nonempty_batches_def flush_topic_def Let_def dict_del_def list_all_iff
           split: option.splits if_splits sum.splits)

lemma nonempty_batches_run_events:
  "nonempty_batches d \<Longrightarrow> run_events d es = Inr (bs, d') \<Longrightarrow> nonempty_batches d'"
proof (induction es arbitrary: d bs)
  case Nil
  then show ?case by simp
next
  case (Cons e es)
  show ?case
  proof (cases e)
    case (Arrive m)
    obtain out d1 where step: "add_message d m = (out, d1)" by (cases "add_message d m")
    then have "nonempty_batches d1" using nonempty_batches_add_message [OF Cons.prems(1), of m] by simp
    moreover obtain bs1 where "run_events d1 es = Inr (bs1, d')"
      using Cons.prems(2) Arrive step by (auto split: sum.splits)
    ultimately show ?thesis using Cons.IH by blast
  next
    case (Poll t)
    obtain bs0 d1 where step: "check_expired d t = Inr (bs0, d1)"
      using Cons.prems(2) Poll by (auto split: sum.splits)
    then have "nonempty_batches d1" using nonempty_batches_check_expired [OF Cons.prems(1)] by simp
    moreover obtain bs1 where "run_events d1 es = Inr (bs1, d')"
      using Cons.prems(2) Poll step by (auto split: sum.splits)
    ultimately show ?thesis using Cons.IH by blast
  qed
qed

subsection \<open>Schedules of arrivals and polls\<close>






text \<open>Arrivals alone, with no poll in between, need no assumption on the timestamps.\<close>

lemma arrivals_only_pending:
  assumes "\<not> float_le (window_s d) (Finite 0 0)" "pending d = [(key, b)]"
    "\<forall>m \<in> set ms. topic_key m = key"
  shows "run_events d (map Arrive ms) =
           Inr ([], d\<lparr>pending := [(key, \<lparr>messages = messages b @ ms,
                  deadline = (if ms = [] then deadline b
                              else float_add (timestamp (last ms)) (window_s d))\<rparr>)]\<rparr>)"
  using assms
proof (induction ms arbitrary: d b)
  case Nil
  then show ?case by simp
next
  case (Cons m ms)
  let ?b' = "\<lparr>messages = messages b @ [m], deadline = float_add (timestamp m) (window_s d)\<rparr>"
  let ?d' = "d\<lparr>pending := [(key, ?b')]\<rparr>"
  have key: "topic_key m = key" using Cons.prems(3) by simp
  have step: "add_message d m = (None, ?d')"
    using add_message_single [OF Cons.prems(1) Cons.prems(2) key] by simp
  have "run_events ?d' (map Arrive ms) =
           Inr ([], ?d'\<lparr>pending := [(key, \<lparr>messages = messages ?b' @ ms,
                  deadline = (if ms = [] then deadline ?b'
                              else float_add (timestamp (last ms)) (window_s ?d'))\<rparr>)]\<rparr>)"
    by (rule Cons.IH) (use Cons.prems in simp_all)
  then show ?case using step by simp
qed

lemma arrivals_only_fresh:
  assumes "\<not> float_le (window_s d) (Finite 0 0)" "pending d = []" "ms \<noteq> []"
    "\<forall>m \<in> set ms. topic_key m = key"
  shows "run_events d (map Arrive ms) =
           Inr ([], d\<lparr>pending := [(key, \<lparr>messages = ms,
                  deadline = float_add (timestamp (last ms)) (window_s d)\<rparr>)]\<rparr>)"
proof -
  obtain m ms' where ms: "ms = m # ms'" using assms(3) by (cases ms) auto
  let ?b = "\<lparr>messages = [m], deadline = float_add (timestamp m) (window_s d)\<rparr>"
  let ?d' = "d\<lparr>pending := [(key, ?b)]\<rparr>"
  have key: "topic_key m = key" using assms(4) ms by simp
  have step: "add_message d m = (None, ?d')"
    using add_message_fresh [OF assms(1) assms(2), of m] key by simp
  have "run_events ?d' (map Arrive ms') =
           Inr ([], ?d'\<lparr>pending := [(key, \<lparr>messages = messages ?b @ ms',
                  deadline = (if ms' = [] then deadline ?b
                              else float_add (timestamp (last ms')) (window_s ?d'))\<rparr>)]\<rparr>)"
    by (rule arrivals_only_pending) (use assms ms in simp_all)
  then show ?thesis using step ms by simp
qed

subsection \<open>Claims about the debouncer\<close>

lemma add_0_025: "finite_add 0 0 1 (- 2) = Finite 1 (- 2)"
  by (simp add: float_eval)

lemma add_025_025: "finite_add 1 (- 2) 1 (- 2) = Finite 1 (- 1)"
  by (simp add: float_eval)

lemma positive_window: "float_lt (Finite 0 0) w \<Longrightarrow> \<not> float_le w (Finite 0 0)"
  by (rule float_lt_not_le)




text \<open>
  Claim C6. After any non-empty sequence of arrivals to one topic of a debouncer with a
  positive window and nothing pending, no call has returned a batch,
  \<^verbatim>\<open>next_deadline()\<close> is the last arrival's timestamp plus the window (the float sum
  that \<^verbatim>\<open>add_message\<close> computes, whatever the earlier timestamps were),
  \<^verbatim>\<open>check_expired(now)\<close> returns nothing and changes nothing for every \<open>now\<close> that is
  \<^verbatim>\<open><\<close> that deadline, and for every \<open>now\<close> with deadline \<^verbatim>\<open><=\<close> \<open>now\<close> it returns
  exactly the finalized batch of that topic and leaves nothing pending. The window is
  the debouncer's \<^verbatim>\<open>_window_s\<close>.
\<close>

theorem deadline_follows_last_arrival:
  assumes "float_lt (Finite 0 0) (window_s d)" and "pending d = []"
    and "ms \<noteq> []" and "\<forall>m \<in> set ms. topic_key m = key"
  shows "\<exists>d'. run_events d (map Arrive ms) = Inr ([], d')
           \<and> pending d' = [(key, \<lparr>messages = ms,
                                  deadline = float_add (timestamp (last ms)) (window_s d)\<rparr>)]
           \<and> next_deadline d' = Inr (Some (float_add (timestamp (last ms)) (window_s d)))
           \<and> (\<forall>now. float_lt now (float_add (timestamp (last ms)) (window_s d))
                  \<longrightarrow> check_expired d' now = Inr ([], d'))
           \<and> (\<forall>now. float_le (float_add (timestamp (last ms)) (window_s d)) now
                  \<longrightarrow> check_expired d' now = Inr ([batch_of ms], d'\<lparr>pending := []\<rparr>))
           \<and> finalize_batch \<lparr>messages = ms,
                               deadline = float_add (timestamp (last ms)) (window_s d)\<rparr>
               = Inr (batch_of ms)"
proof -
  let ?dl = "float_add (timestamp (last ms)) (window_s d)"
  let ?b = "\<lparr>messages = ms, deadline = ?dl\<rparr>"
  let ?d = "d\<lparr>pending := [(key, ?b)]\<rparr>"
  have pos: "\<not> float_le (window_s d) (Finite 0 0)" using assms(1) by (rule positive_window)
  have run: "run_events d (map Arrive ms) = Inr ([], ?d)"
    using arrivals_only_fresh [OF pos assms(2) assms(3) assms(4)] .
  have pd: "pending ?d = [(key, ?b)]" by simp
  have ne: "messages ?b \<noteq> []" using assms(3) by simp
  have nd: "next_deadline ?d = Inr (Some ?dl)"
    using next_deadline_single [OF pd ne] by simp
  have chk: "check_expired ?d now =
           (if float_le (deadline ?b) now then Inr ([batch_of (messages ?b)], ?d\<lparr>pending := []\<rparr>)
            else Inr ([], ?d))" for now
    by (rule check_expired_single [OF pd ne])
  have early: "\<forall>now. float_lt now ?dl \<longrightarrow> check_expired ?d now = Inr ([], ?d)"
    using chk float_lt_not_le by simp
  have late: "\<forall>now. float_le ?dl now \<longrightarrow> check_expired ?d now = Inr ([batch_of ms], ?d\<lparr>pending := []\<rparr>)"
    using chk by simp
  have fin: "finalize_batch ?b = Inr (batch_of ms)"
    using finalize_batch_nonempty [OF ne] by simp
  show ?thesis
    using run pd nd early late fin by blast
qed

text \<open>
  Witness for C6. The three lines with a window of 200 ms: the deadline is
  \<^verbatim>\<open>0.1 + 0.2 = 0.30000000000000004\<close>, a poll at \<^verbatim>\<open>0.3\<close> returns nothing and a
  poll at the deadline returns the batch. A message stamped \<^verbatim>\<open>1e16\<close> with a window
  of 250 ms: the deadline is \<^verbatim>\<open>1e16 + 0.25 = 1e16\<close>, and a poll at \<^verbatim>\<open>1e16\<close>
  returns the batch.
\<close>

theorem deadline_follows_last_arrival_witness:
  "(\<exists>d'. run_events (TopicDebouncer_init (Finite 200 0)) (map Arrive [line1, line2, line3])
           = Inr ([], d')
      \<and> next_deadline d' = Inr (Some (Finite 1351079888211149 (- 52)))
      \<and> check_expired d' (Finite 5404319552844595 (- 54)) = Inr ([], d')
      \<and> check_expired d' (Finite 1351079888211149 (- 52))
           = Inr ([batch_of [line1, line2, line3]], d'\<lparr>pending := []\<rparr>))
   \<and> (\<exists>d'. run_events (TopicDebouncer_init (Finite 250 0)) (map Arrive [far_msg]) = Inr ([], d')
      \<and> next_deadline d' = Inr (Some (Finite 152587890625 16))
      \<and> check_expired d' (Finite 152587890625 16)
           = Inr ([batch_of [far_msg]], d'\<lparr>pending := []\<rparr>))"
proof -
  let ?ini = "TopicDebouncer_init (Finite 200 0)"
  have w: "window_s ?ini = Finite 3602879701896397 (- 54)"
    by (simp add: TopicDebouncer_init_def div_200)
  have pos: "float_lt (Finite 0 0) (window_s ?ini)" unfolding w by (simp add: fval_def pow2_def)
  have emp: "pending ?ini = []" by (simp add: TopicDebouncer_init_def)
  have ne: "[line1, line2, line3] \<noteq> []" by simp
  have keys: "\<forall>m \<in> set [line1, line2, line3]. topic_key m = (1, None)"
    by (simp add: line1_def line2_def line3_def make_pending_def topic_key_def)
  have dl: "float_add (timestamp (last [line1, line2, line3])) (window_s ?ini)
              = Finite 1351079888211149 (- 52)"
    unfolding w by (simp add: line3_def make_pending_def add_01_02)
  from deadline_follows_last_arrival [OF pos emp ne keys] obtain d1 where
    run: "run_events ?ini (map Arrive [line1, line2, line3]) = Inr ([], d1)"
    and nd: "next_deadline d1 = Inr (Some (Finite 1351079888211149 (- 52)))"
    and early: "\<forall>now. float_lt now (Finite 1351079888211149 (- 52))
                  \<longrightarrow> check_expired d1 now = Inr ([], d1)"
    and late: "\<forall>now. float_le (Finite 1351079888211149 (- 52)) now
                  \<longrightarrow> check_expired d1 now = Inr ([batch_of [line1, line2, line3]], d1\<lparr>pending := []\<rparr>)"
    unfolding dl by blast
  have "float_lt (Finite 5404319552844595 (- 54)) (Finite 1351079888211149 (- 52))"
    by (simp add: fval_def pow2_def)
  then have e1: "check_expired d1 (Finite 5404319552844595 (- 54)) = Inr ([], d1)"
    using early by blast
  have "float_le (Finite 1351079888211149 (- 52)) (Finite 1351079888211149 (- 52))" by simp
  then have l1: "check_expired d1 (Finite 1351079888211149 (- 52))
           = Inr ([batch_of [line1, line2, line3]], d1\<lparr>pending := []\<rparr>)"
    using late by blast
  let ?far = "TopicDebouncer_init (Finite 250 0)"
  have w2: "window_s ?far = Finite 1 (- 2)"
    by (simp add: TopicDebouncer_init_def div_250)
  have pos2: "float_lt (Finite 0 0) (window_s ?far)" unfolding w2 by (simp add: fval_def pow2_def)
  have emp2: "pending ?far = []" by (simp add: TopicDebouncer_init_def)
  have ne2: "[far_msg] \<noteq> []" by simp
  have keys2: "\<forall>m \<in> set [far_msg]. topic_key m = (1, None)"
    by (simp add: far_msg_def make_pending_def topic_key_def)
  have dl2: "float_add (timestamp (last [far_msg])) (window_s ?far) = Finite 152587890625 16"
    unfolding w2 by (simp add: far_msg_def make_pending_def add_1e16_025)
  from deadline_follows_last_arrival [OF pos2 emp2 ne2 keys2] obtain d2 where
    run2: "run_events ?far (map Arrive [far_msg]) = Inr ([], d2)"
    and nd2: "next_deadline d2 = Inr (Some (Finite 152587890625 16))"
    and late2: "\<forall>now. float_le (Finite 152587890625 16) now
                  \<longrightarrow> check_expired d2 now = Inr ([batch_of [far_msg]], d2\<lparr>pending := []\<rparr>)"
    unfolding dl2 by blast
  have "float_le (Finite 152587890625 16) (Finite 152587890625 16)" by simp
  then have l2: "check_expired d2 (Finite 152587890625 16)
           = Inr ([batch_of [far_msg]], d2\<lparr>pending := []\<rparr>)"
    using late2 by blast
  show ?thesis using run nd e1 l1 run2 nd2 l2 by blast
qed

text \<open>
  Claim C7. Every batch that leaves the debouncer is built from the messages of one
  pending entry and carries the resume token, the context and the engine override (and
  the chat and thread ids) of the first of them, whatever the later ones say; pending
  entries hold their messages in arrival order (\<open>add_message_appends\<close>).
  \<^verbatim>\<open>check_expired\<close> returns exactly the batches \<open>batch_of\<close> of the entries that are
  due, in order, each from its own entry; \<^verbatim>\<open>flush_all\<close> those of all entries;
  \<^verbatim>\<open>flush_topic\<close> the one of the entry of its key, and nothing else; the immediate
  path of \<^verbatim>\<open>add_message\<close> the batch of the one message. \<open>batch_of (first # rest)\<close>
  has the five fields of \<open>first\<close>.
\<close>

theorem first_message_routing_wins:
  "(\<exists>d'. check_expired d now
           = Inr (map (\<lambda>kv. batch_of (messages (snd kv)))
                    (filter (\<lambda>kv. float_le (deadline (snd kv)) now \<and> messages (snd kv) \<noteq> [])
                       (pending d)), d'))
   \<and> (\<exists>d'. flush_all d
           = Inr (map (\<lambda>kv. batch_of (messages (snd kv)))
                    (filter (\<lambda>kv. messages (snd kv) \<noteq> []) (pending d)), d'))
   \<and> (dict_get (pending d) key = Some \<lparr>messages = first # rest, deadline = dl\<rparr> \<longrightarrow>
        (\<exists>d'. flush_topic d key = Inr (Some (batch_of (first # rest)), d')))
   \<and> (flush_topic d key = Inr (Some b, d') \<longrightarrow>
        (\<exists>first rest dl.
            dict_get (pending d) key = Some \<lparr>messages = first # rest, deadline = dl\<rparr>
            \<and> b = batch_of (first # rest)))
   \<and> (float_le (window_s d) (Finite 0 0) \<longrightarrow> add_message d msg = (Some (batch_of [msg]), d))
   \<and> (add_message d msg = (Some b, d') \<longrightarrow> b = batch_of [msg])
   \<and> batch_resume_token (batch_of (first # rest)) = resume_token first
   \<and> batch_context (batch_of (first # rest)) = run_context first
   \<and> batch_engine_override (batch_of (first # rest)) = engine_override first
   \<and> batch_chat_id (batch_of (first # rest)) = chat_id first
   \<and> batch_thread_id (batch_of (first # rest)) = thread_id first"
proof -
  have chk: "\<exists>d'. check_expired d now
           = Inr (map (\<lambda>kv. batch_of (messages (snd kv)))
                    (filter (\<lambda>kv. float_le (deadline (snd kv)) now \<and> messages (snd kv) \<noteq> [])
                       (pending d)), d')"
    using expired_loop_exact [of now "pending d"] by (auto simp add: check_expired_def)
  have fl: "\<exists>d'. flush_all d
           = Inr (map (\<lambda>kv. batch_of (messages (snd kv)))
                    (filter (\<lambda>kv. messages (snd kv) \<noteq> []) (pending d)), d')"
    by (simp add: flush_all_def flush_loop_all filter_map comp_def)
  have ft1: "\<exists>d'. flush_topic d key = Inr (Some (batch_of (first # rest)), d')"
    if "dict_get (pending d) key = Some \<lparr>messages = first # rest, deadline = dl\<rparr>"
    using that by (simp add: flush_topic_def Let_def finalize_batch_nonempty)
  have ft2: "\<exists>first rest dl.
            dict_get (pending d) key = Some \<lparr>messages = first # rest, deadline = dl\<rparr>
            \<and> b = batch_of (first # rest)"
    if ft: "flush_topic d key = Inr (Some b, d')"
  proof -
    from ft obtain batch where get: "dict_get (pending d) key = Some batch"
      by (auto simp add: flush_topic_def split: option.splits)
    from ft get have ne: "messages batch \<noteq> []" and b: "b = batch_of (messages batch)"
      by (auto simp add: flush_topic_def Let_def finalize_batch_nonempty split: if_splits)
    from ne obtain first rest where fr: "messages batch = first # rest"
      by (cases "messages batch") auto
    have "batch = \<lparr>messages = first # rest, deadline = deadline batch\<rparr>" using fr by simp
    then have "dict_get (pending d) key = Some \<lparr>messages = first # rest, deadline = deadline batch\<rparr>"
      using get by simp
    then show ?thesis using b fr by auto
  qed
  have am1: "add_message d msg = (Some (batch_of [msg]), d)"
    if "float_le (window_s d) (Finite 0 0)"
    using that by (simp add: add_message_def batch_of_def)
  have am2: "b = batch_of [msg]" if "add_message d msg = (Some b, d')"
    using that by (auto simp add: add_message_def batch_of_def Let_def split: if_splits)
  have fields: "batch_resume_token (batch_of (first # rest)) = resume_token first"
      "batch_context (batch_of (first # rest)) = run_context first"
      "batch_engine_override (batch_of (first # rest)) = engine_override first"
      "batch_chat_id (batch_of (first # rest)) = chat_id first"
      "batch_thread_id (batch_of (first # rest)) = thread_id first"
    by (simp_all add: batch_of_def)
  show ?thesis using chk fl ft1 ft2 am1 am2 fields by blast
qed

text \<open>
  Three arrivals to a debouncer with a window of 250 ms: two messages of one topic that
  disagree on the routing fields, and one message of another chat.
\<close>

lemma two_topics_pending:
  "run_events (TopicDebouncer_init (Finite 250 0))
      [Arrive first_msg, Arrive second_msg, Arrive other_msg]
     = Inr ([], \<lparr>window_s = Finite 1 (- 2),
                 pending = [((1, None), \<lparr>messages = [first_msg, second_msg],
                                          deadline = Finite 3 (- 3)\<rparr>),
                            ((2, None), \<lparr>messages = [other_msg],
                                          deadline = Finite 1 (- 1)\<rparr>)]\<rparr>)"
proof -
  have ini: "TopicDebouncer_init (Finite 250 0) = \<lparr>window_s = Finite 1 (- 2), pending = []\<rparr>"
    by (simp add: TopicDebouncer_init_def div_250)
  have nz: "\<not> float_le (Finite 1 (- 2)) (Finite 0 0)" by (simp add: fval_def pow2_def)
  have fm: "chat_id first_msg = 1" "thread_id first_msg = None" "timestamp first_msg = Finite 0 0"
    by (simp_all add: first_msg_def make_pending_def)
  have sm: "chat_id second_msg = 1" "thread_id second_msg = None"
      "timestamp second_msg = Finite 1 (- 3)"
    by (simp_all add: second_msg_def make_pending_def)
  have om: "chat_id other_msg = 2" "thread_id other_msg = None"
      "timestamp other_msg = Finite 1 (- 2)"
    by (simp_all add: other_msg_def make_pending_def)
  show ?thesis unfolding ini
    by (simp add: add_message_def Let_def fm sm om dict_get_def
          add_0_025 add_0125_025 add_025_025 fval_def pow2_def)
qed

text \<open>
  Witness for C7, on the state that the three arrivals leave: expiry, \<^verbatim>\<open>flush_all\<close>
  and \<^verbatim>\<open>flush_topic\<close> return the batch of each topic with the routing of that topic's
  first message, and a debouncer with window zero returns the message as its own batch.
\<close>

theorem first_message_routing_wins_witness:
  "(\<exists>d0 d'. run_events (TopicDebouncer_init (Finite 250 0))
               [Arrive first_msg, Arrive second_msg, Arrive other_msg] = Inr ([], d0)
        \<and> check_expired d0 (Finite 1 0)
             = Inr ([batch_of [first_msg, second_msg], batch_of [other_msg]], d')
        \<and> (\<exists>d'. flush_all d0 = Inr ([batch_of [first_msg, second_msg], batch_of [other_msg]], d'))
        \<and> (\<exists>d'. flush_topic d0 (2, None) = Inr (Some (batch_of [other_msg]), d')))
   \<and> add_message (TopicDebouncer_init (Finite 0 0)) second_msg
        = (Some (batch_of [second_msg]), TopicDebouncer_init (Finite 0 0))
   \<and> batch_engine_override (batch_of [first_msg, second_msg]) = Some ''claude''
   \<and> batch_resume_token (batch_of [first_msg, second_msg])
        = Some \<lparr>engine = ''codex'', token_value = ''resume123''\<rparr>
   \<and> batch_context (batch_of [first_msg, second_msg])
        = Some \<lparr>project = Some ''myproj'', branch = Some ''feat/test''\<rparr>
   \<and> engine_override second_msg = Some ''codex''
   \<and> batch_engine_override (batch_of [other_msg]) = Some ''pi''"
proof -
  let ?d0 = "\<lparr>window_s = Finite 1 (- 2),
                 pending = [((1, None), \<lparr>messages = [first_msg, second_msg],
                                          deadline = Finite 3 (- 3)\<rparr>),
                            ((2, None), \<lparr>messages = [other_msg],
                                          deadline = Finite 1 (- 1)\<rparr>)]\<rparr>"
  let ?z = "TopicDebouncer_init (Finite 0 0)"
  note inst = first_message_routing_wins [where d = ?d0 and now = "Finite 1 0"
      and key = "(2, None)" and first = other_msg and rest = "[]" and dl = "Finite 1 (- 1)"]
  have exp: "filter (\<lambda>kv. float_le (deadline (snd kv)) (Finite 1 0) \<and> messages (snd kv) \<noteq> [])
               (pending ?d0) = pending ?d0"
    by (simp add: fval_def pow2_def)
  have chk: "\<exists>d'. check_expired ?d0 (Finite 1 0)
             = Inr ([batch_of [first_msg, second_msg], batch_of [other_msg]], d')"
    using inst unfolding exp by simp
  have fl: "\<exists>d'. flush_all ?d0 = Inr ([batch_of [first_msg, second_msg], batch_of [other_msg]], d')"
    using inst by simp
  have get: "dict_get (pending ?d0) (2, None)
               = Some \<lparr>messages = other_msg # [], deadline = Finite 1 (- 1)\<rparr>"
    by (simp add: dict_get_def)
  have ft: "\<exists>d'. flush_topic ?d0 (2, None) = Inr (Some (batch_of [other_msg]), d')"
    using inst get by blast
  have zero: "float_le (window_s ?z) (Finite 0 0)"
    by (simp add: TopicDebouncer_init_def div_0 fval_def)
  have am: "add_message ?z second_msg = (Some (batch_of [second_msg]), ?z)"
    using first_message_routing_wins [where d = ?z and msg = second_msg] zero by blast
  have f1: "batch_engine_override (batch_of [first_msg, second_msg]) = Some ''claude''"
      "batch_resume_token (batch_of [first_msg, second_msg])
        = Some \<lparr>engine = ''codex'', token_value = ''resume123''\<rparr>"
      "batch_context (batch_of [first_msg, second_msg])
        = Some \<lparr>project = Some ''myproj'', branch = Some ''feat/test''\<rparr>"
    using first_message_routing_wins [where first = first_msg and rest = "[second_msg]"]
    by (simp_all add: first_msg_def make_pending_def)
  have f2: "engine_override second_msg = Some ''codex''"
    by (simp add: second_msg_def make_pending_def)
  have f3: "batch_engine_override (batch_of [other_msg]) = Some ''pi''"
    using inst by (simp add: other_msg_def make_pending_def)
  from chk obtain d' where chk': "check_expired ?d0 (Finite 1 0)
             = Inr ([batch_of [first_msg, second_msg], batch_of [other_msg]], d')" by blast
  show ?thesis using two_topics_pending chk' fl ft am f1 f2 f3 by blast
qed

text \<open>
  Claim C8. In a debouncer whose pending batches are non-empty (every reachable one),
  \<^verbatim>\<open>flush_all()\<close> returns one finalized batch for every pending topic, in order,
  and leaves nothing pending; a second \<^verbatim>\<open>flush_all()\<close> right after returns the empty
  list, and \<^verbatim>\<open>next_deadline()\<close> is \<^verbatim>\<open>None\<close>.
\<close>

theorem flush_all_clears:
  assumes "nonempty_batches d"
  shows "\<exists>bs d'. flush_all d = Inr (bs, d')
           \<and> map Inr bs = map (\<lambda>kv. finalize_batch (snd kv)) (pending d)
           \<and> length bs = length (pending d)
           \<and> pending d' = []
           \<and> flush_all d' = Inr ([], d')
           \<and> next_deadline d' = Inr None"
proof -
  have all: "filter (\<lambda>b. messages b \<noteq> []) (map snd (pending d)) = map snd (pending d)"
    using assms by (simp add: nonempty_batches_def list_all_iff)
  let ?bs = "map (\<lambda>b. batch_of (messages b)) (map snd (pending d))"
  let ?d' = "d\<lparr>pending := []\<rparr>"
  have fl: "flush_all d = Inr (?bs, ?d')"
    by (simp add: flush_all_def flush_loop_all all)
  have fin: "map Inr ?bs = map (\<lambda>kv. finalize_batch (snd kv)) (pending d)"
    using assms by (simp add: nonempty_batches_def list_all_iff finalize_batch_nonempty)
  have "flush_all ?d' = Inr ([], ?d')" by (simp add: flush_all_def)
  moreover have "next_deadline ?d' = Inr None" by (simp add: next_deadline_def)
  ultimately show ?thesis using fl fin by simp
qed

text \<open>Witness for C8: the debouncer with one pending topic.\<close>

theorem flush_all_clears_witness:
  "nonempty_batches two_pending
   \<and> (\<exists>bs d'. flush_all two_pending = Inr (bs, d')
        \<and> length bs = 1
        \<and> pending d' = []
        \<and> flush_all d' = Inr ([], d')
        \<and> next_deadline d' = Inr None)"
proof -
  have inv: "nonempty_batches two_pending"
    by (simp add: nonempty_batches_def two_pending_def)
  have len: "length (pending two_pending) = 1" by (simp add: two_pending_def)
  from flush_all_clears [OF inv] show ?thesis using inv unfolding len by blast
qed

text \<open>
  Claim C9. With a window of zero \<^verbatim>\<open>add_message\<close> returns at once a batch whose
  \<open>combined_text\<close> is the message's text and whose first and last message ids are the
  message's id; the debouncer, and so its pending state, is unchanged.
\<close>

theorem window_zero_immediate:
  assumes "window_s d = Finite 0 e"
  shows "\<exists>b. add_message d msg = (Some b, d)
           \<and> combined_text b = msg_text msg
           \<and> first_msg_id b = user_msg_id msg
           \<and> last_msg_id b = user_msg_id msg"
  using assms by (simp add: add_message_def fval_def)

text \<open>Witness for C9: \<^verbatim>\<open>TopicDebouncer(window_ms=0)\<close> and the message of the test.\<close>

theorem window_zero_immediate_witness:
  "window_s (TopicDebouncer_init (Finite 0 0)) = Finite 0 0
   \<and> (\<exists>b. add_message (TopicDebouncer_init (Finite 0 0))
              (make_pending 1 100 ''hello'' None (Finite 0 0) None None None)
            = (Some b, TopicDebouncer_init (Finite 0 0))
        \<and> combined_text b = ''hello''
        \<and> first_msg_id b = 100
        \<and> last_msg_id b = 100)"
proof -
  have w: "window_s (TopicDebouncer_init (Finite 0 0)) = Finite 0 0"
    by (simp add: TopicDebouncer_init_def div_0)
  from window_zero_immediate [OF w, of "make_pending 1 100 ''hello'' None (Finite 0 0) None None None"]
  show ?thesis using w by (simp add: make_pending_def)
qed


section \<open>Facts about the Codex runner\<close>

subsection \<open>The loop over standard output\<close>

text \<open>
  On a tolerated line the loop body raises nothing: it takes over the session id that the
  line reports and the reply text that the line carries, and keeps the rest.
\<close>

lemma handle_event_tolerated:
  assumes "tolerated (Decoded evt)"
  shows "handle_event evt (s, t) =
           Inr (case reported_id (Decoded evt) of None \<Rightarrow> s | Some i \<Rightarrow> i,
                case agent_text (Decoded evt) of None \<Rightarrow> t | Some x \<Rightarrow> Some x)"
proof (cases evt)
  case (JObj kvs)
  show ?thesis
  proof (cases "py_get kvs ''type'' = JStr ''item.completed''")
    case True
    then show ?thesis using assms JObj
      by (cases "py_get kvs ''item''")
         (auto simp add: py_or_def Let_def py_get_def split: json.splits option.splits)
  next
    case False
    then show ?thesis using JObj by (simp add: py_or_def Let_def)
  qed
qed (use assms in simp_all)

text \<open>On any other line it raises \<^verbatim>\<open>AttributeError\<close>.\<close>

lemma handle_event_not_tolerated:
  assumes "\<not> tolerated (Decoded evt)"
  shows "handle_event evt st = Inl AttributeError"
proof (cases evt)
  case (JObj kvs)
  obtain s t where st: "st = (s, t)" by (cases st)
  from assms JObj have ty: "py_get kvs ''type'' = JStr ''item.completed''"
    and tr: "truthy (py_get kvs ''item'')" and nd: "\<not> is_dict (py_get kvs ''item'')"
    by simp_all
  show ?thesis using JObj st ty tr nd
    by (cases "py_get kvs ''item''") (simp_all add: py_or_def Let_def)
qed (cases st; simp)+

lemma consume_tolerated:
  "list_all tolerated ls \<Longrightarrow>
     consume ls (s, t) = Inr (last (s # reported_ids ls), last (t # map Some (agent_texts ls)))"
proof (induction ls arbitrary: s t)
  case Nil
  then show ?case by (simp add: reported_ids_def agent_texts_def List.map_filter_simps)
next
  case (Cons l ls)
  show ?case
  proof (cases l)
    case Blank
    then show ?thesis using Cons
      by (simp add: reported_ids_def agent_texts_def List.map_filter_simps)
  next
    case Undecodable
    then show ?thesis using Cons
      by (simp add: reported_ids_def agent_texts_def List.map_filter_simps)
  next
    case (Decoded evt)
    have tol: "tolerated (Decoded evt)" and rest: "list_all tolerated ls"
      using Cons.prems Decoded by simp_all
    show ?thesis
      using Decoded handle_event_tolerated [OF tol] Cons.IH [OF rest]
      by (simp add: reported_ids_def agent_texts_def List.map_filter_simps
               split: option.splits)
  qed
qed

lemma consume_not_tolerated:
  "\<not> list_all tolerated ls \<Longrightarrow> consume ls st = Inl AttributeError"
proof (induction ls arbitrary: st)
  case Nil
  then show ?case by simp
next
  case (Cons l ls)
  show ?case
  proof (cases l)
    case Blank
    then show ?thesis using Cons by simp
  next
    case Undecodable
    then show ?thesis using Cons by simp
  next
    case (Decoded evt)
    show ?thesis
    proof (cases "tolerated (Decoded evt)")
      case True
      obtain s t where st: "st = (s, t)" by (cases st)
      have "\<not> list_all tolerated ls" using Cons.prems Decoded True by simp
      then show ?thesis
        using Decoded st handle_event_tolerated [OF True, of s t] Cons.IH by simp
    next
      case False
      then show ?thesis using Decoded handle_event_not_tolerated by simp
    qed
  qed
qed

lemma consume_append:
  "consume (a @ b) st = (case consume a st of Inl e \<Rightarrow> Inl e | Inr st' \<Rightarrow> consume b st')"
proof (induction a arbitrary: st)
  case Nil
  then show ?case by simp
next
  case (Cons l a)
  then show ?case by (cases l) (simp_all split: sum.splits)
qed

lemma consume_skipped: "skipped l \<Longrightarrow> consume (l # ls) st = consume ls st"
proof (induction l rule: skipped.induct)
  case (3 evt)
  then show ?case by (cases st) (simp add: Let_def)
qed simp_all

lemma reported_id_truthy: "reported_id l = Some i \<Longrightarrow> truthy i"
  by (induction l rule: reported_id.induct) (auto split: if_splits)

lemma reported_ids_truthy: "i \<in> set (reported_ids ls) \<Longrightarrow> truthy i"
  by (auto simp add: reported_ids_def List.map_filter_def reported_id_truthy)

lemma reported_ids_append: "reported_ids (a @ b) = reported_ids a @ reported_ids b"
  by (simp add: reported_ids_def List.map_filter_def)

lemma reported_ids_Cons:
  "reported_ids (l # ls) = (case reported_id l of None \<Rightarrow> [] | Some i \<Rightarrow> [i]) @ reported_ids ls"
  by (simp add: reported_ids_def List.map_filter_simps split: option.splits)

subsection \<open>The result of \<^verbatim>\<open>run\<close>\<close>

lemma exec_failed_msg_neq: "exec_failed_msg code tail \<noteq> no_session_msg"
  by (simp add: exec_failed_msg_def no_session_msg_def)

lemma stderr_tail_bounded:
  "\<exists>pre tl. ls = pre @ tl \<and> length tl \<le> 200 \<and> stderr_tail ls = concat tl"
proof -
  have "ls = take (length ls - 200) ls @ drop (length ls - 200) ls" by simp
  moreover have "length (drop (length ls - 200) ls) \<le> 200" by simp
  ultimately show ?thesis unfolding stderr_tail_def by blast
qed

lemma known_session_truthy:
  "truthy (last (session_json sid # ids)) \<longleftrightarrow>
     (if ids = [] then (\<exists>s. sid = Some s \<and> s \<noteq> []) else truthy (last ids))"
  by (cases sid) (simp_all add: session_json_def)

lemma run_result_tolerated:
  assumes "list_all tolerated (stdout out)"
  shows "run_result sid out =
           (if rc out \<noteq> 0
            then Inl (RuntimeError (exec_failed_msg (rc out) (stderr_tail (stderr out))))
            else if \<not> truthy (last (session_json sid # reported_ids (stdout out)))
            then Inl (RuntimeError no_session_msg)
            else Inr (last (session_json sid # reported_ids (stdout out)),
                      if agent_texts (stdout out) = [] \<or> last (agent_texts (stdout out)) = []
                      then no_agent_message else last (agent_texts (stdout out))))"
  using consume_tolerated [OF assms, of "session_json sid" None]
  by (simp add: run_result_def last_map)

lemma run_result_not_tolerated:
  "\<not> list_all tolerated (stdout out) \<Longrightarrow> run_result sid out = Inl AttributeError"
  by (simp add: run_result_def consume_not_tolerated)

subsection \<open>The lock of \<^verbatim>\<open>run_serialized\<close>\<close>

text \<open>
  With a non-empty session id the call takes the lock of that id, starts the process in
  resume mode, and releases the lock after \<^verbatim>\<open>run\<close> has returned or raised; the lock
  stays in \<^verbatim>\<open>_locks\<close>.
\<close>

lemma run_args_lock_for: "run_args (lock_for self s) sid = run_args self sid"
  by (simp add: run_args_def lock_for_def)

lemma run_serialized_holds_lock:
  assumes "s \<noteq> []"
  shows "snd (snd (run_serialized self proc prompt (Some s)))
           = [Acquire s, Spawn (run_args self (Some s)), Release s]
       \<and> s \<in> set (locks (fst (snd (run_serialized self proc prompt (Some s)))))"
proof -
  have "snd (snd (run_serialized self proc prompt (Some s)))
           = [Acquire s, Spawn (run_args self (Some s)), Release s]"
    using assms by (simp add: run_serialized_def run_def Let_def run_args_lock_for)
  moreover have "s \<in> set (locks (fst (snd (run_serialized self proc prompt (Some s)))))"
    using assms by (simp add: run_serialized_def run_def Let_def lock_for_def)
  ultimately show ?thesis by simp
qed






subsection \<open>Claims about the runner\<close>



text \<open>
  Claim C3, as stated, fails on an empty resume id: the id is supplied, the process exits
  with code 0 and prints nothing, and \<^verbatim>\<open>run\<close> raises the missing-session error, where
  the claim counts a supplied resume id as a known session and promises the placeholder
  reply.
\<close>

theorem run_empty_resume_counterexample:
  "run_result (Some []) \<lparr>stdout = [], stderr = [], rc = 0\<rparr> = Inl (RuntimeError no_session_msg)"
  by (simp add: run_result_def session_json_def)

text \<open>
  Claim C3, amended. Let no line of standard output make the loop body raise. Then
  \<^verbatim>\<open>run\<close> raises the \<^verbatim>\<open>RuntimeError\<close> "codex exec failed", with the exit code and
  the concatenation of at most the last 200 lines of the error stream, if and only if the
  exit code is not zero. If the exit code is zero, no non-empty resume id was supplied
  and no line reported a session id, it raises the \<^verbatim>\<open>RuntimeError\<close> "no
  session_id/thread_id was captured". If the exit code is zero, a session id is known (a
  non-empty resume id, or one reported by a line) and no reply text was observed, or the
  last one observed is empty, it raises nothing and returns the fixed placeholder as the
  reply text.
\<close>

theorem run_failure_conditions:
  assumes "list_all tolerated (stdout out)"
  shows "(rc out \<noteq> 0 \<longrightarrow>
            run_result sid out
              = Inl (RuntimeError (exec_failed_msg (rc out) (stderr_tail (stderr out)))))
       \<and> (rc out = 0 \<longrightarrow>
            (\<forall>code tail. run_result sid out \<noteq> Inl (RuntimeError (exec_failed_msg code tail))))
       \<and> (\<exists>pre tl. stderr out = pre @ tl \<and> length tl \<le> 200
             \<and> stderr_tail (stderr out) = concat tl)
       \<and> (rc out = 0 \<and> (sid = None \<or> sid = Some []) \<and> reported_ids (stdout out) = [] \<longrightarrow>
            run_result sid out = Inl (RuntimeError no_session_msg))
       \<and> (rc out = 0 \<and> ((\<exists>s. sid = Some s \<and> s \<noteq> []) \<or> reported_ids (stdout out) \<noteq> [])
            \<and> (agent_texts (stdout out) = [] \<or> last (agent_texts (stdout out)) = []) \<longrightarrow>
            (\<exists>session. run_result sid out = Inr (session, no_agent_message)))"
proof (intro conjI impI allI)
  assume "rc out \<noteq> 0"
  then show "run_result sid out
      = Inl (RuntimeError (exec_failed_msg (rc out) (stderr_tail (stderr out))))"
    by (simp add: run_result_tolerated [OF assms])
next
  fix code tail
  assume "rc out = 0"
  then show "run_result sid out \<noteq> Inl (RuntimeError (exec_failed_msg code tail))"
    using exec_failed_msg_neq [of code tail] by (simp add: run_result_tolerated [OF assms])
next
  show "\<exists>pre tl. stderr out = pre @ tl \<and> length tl \<le> 200 \<and> stderr_tail (stderr out) = concat tl"
    by (rule stderr_tail_bounded)
next
  assume a: "rc out = 0 \<and> (sid = None \<or> sid = Some []) \<and> reported_ids (stdout out) = []"
  then have "\<not> truthy (last (session_json sid # reported_ids (stdout out)))"
    by (auto simp add: session_json_def)
  then show "run_result sid out = Inl (RuntimeError no_session_msg)"
    using a by (simp add: run_result_tolerated [OF assms])
next
  assume a: "rc out = 0 \<and> ((\<exists>s. sid = Some s \<and> s \<noteq> []) \<or> reported_ids (stdout out) \<noteq> [])
            \<and> (agent_texts (stdout out) = [] \<or> last (agent_texts (stdout out)) = [])"
  have "truthy (last (session_json sid # reported_ids (stdout out)))"
  proof (cases "reported_ids (stdout out) = []")
    case True
    then show ?thesis using a by (auto simp add: session_json_def)
  next
    case False
    then have "last (reported_ids (stdout out)) \<in> set (reported_ids (stdout out))" by simp
    then have "truthy (last (reported_ids (stdout out)))" by (rule reported_ids_truthy)
    then show ?thesis using False by (simp add: known_session_truthy)
  qed
  then show "\<exists>session. run_result sid out = Inr (session, no_agent_message)"
    using a by (auto simp add: run_result_tolerated [OF assms])
qed

text \<open>
  Witness for C3: a process that fails with exit code 1, one that exits with 0 and reports
  no session, and a resumed session without a reply text.
\<close>

theorem run_failure_conditions_witness:
  "list_all tolerated [thread_started (JStr ''abc''), Undecodable]
   \<and> run_result None \<lparr>stdout = [thread_started (JStr ''abc''), Undecodable],
                       stderr = [''boom''], rc = 1\<rparr>
       = Inl (RuntimeError (exec_failed_msg 1 ''boom''))
   \<and> run_result None \<lparr>stdout = [Blank], stderr = [], rc = 0\<rparr>
       = Inl (RuntimeError no_session_msg)
   \<and> (\<exists>session. run_result (Some ''s'') \<lparr>stdout = [Undecodable], stderr = [], rc = 0\<rparr>
       = Inr (session, no_agent_message))"
  using run_failure_conditions [of "\<lparr>stdout = [thread_started (JStr ''abc''), Undecodable],
                       stderr = [''boom''], rc = 1\<rparr>" None]
    run_failure_conditions [of "\<lparr>stdout = [Blank], stderr = [], rc = 0\<rparr>" None]
    run_failure_conditions [of "\<lparr>stdout = [Undecodable], stderr = [], rc = 0\<rparr>" "Some ''s''"]
  by (simp add: thread_started_def reported_ids_def agent_texts_def
        List.map_filter_simps py_get_def py_or_def stderr_tail_def)

text \<open>
  Claim C4, as stated, fails: the line \<^verbatim>\<open>{"type": "session.started", "session_id":
  "abc"}\<close> is not recognized, and without a resume id \<^verbatim>\<open>run\<close> raises the
  missing-session error.
\<close>

theorem session_started_counterexample:
  "run_result None
     \<lparr>stdout = [Decoded (JObj [(''type'', JStr ''session.started''),
                               (''session_id'', JStr ''abc'')])],
      stderr = [], rc = 0\<rparr>
   = Inl (RuntimeError no_session_msg)"
  by (simp add: run_result_def session_json_def py_get_def Let_def)

text \<open>
  Claim C4, amended. The event that carries the session id is \<^verbatim>\<open>{"type":
  "thread.started", "thread_id": s}\<close>. If the process exits with code 0 and standard
  output has such a line with \<open>s\<close> a non-empty string, then \<^verbatim>\<open>run\<close> without a resume
  id does not raise the missing-session error; when no line makes the loop body raise, it
  returns as session id the last session id that a line reported, which is \<open>s\<close> when
  no later line reports one.
\<close>

theorem thread_started_recognized:
  assumes "rc out = 0"
    and "stdout out = pre @ Decoded (JObj evt) # post"
    and "py_get evt ''type'' = JStr ''thread.started''"
    and "py_get evt ''thread_id'' = JStr s"
    and "s \<noteq> []"
  shows "run_result None out \<noteq> Inl (RuntimeError no_session_msg)
       \<and> (list_all tolerated (stdout out) \<longrightarrow>
            (\<exists>reply. run_result None out = Inr (last (reported_ids (stdout out)), reply)))
       \<and> (list_all tolerated (stdout out) \<and> reported_ids post = [] \<longrightarrow>
            (\<exists>reply. run_result None out = Inr (JStr s, reply)))"
proof -
  have rid: "reported_id (Decoded (JObj evt)) = Some (JStr s)" using assms(3-5) by simp
  have ids: "reported_ids (stdout out) = reported_ids pre @ [JStr s] @ reported_ids post"
    using assms(2) rid by (simp add: reported_ids_append reported_ids_Cons)
  then have ne: "reported_ids (stdout out) \<noteq> []" by simp
  then have "last (reported_ids (stdout out)) \<in> set (reported_ids (stdout out))" by simp
  then have tr: "truthy (last (reported_ids (stdout out)))" by (rule reported_ids_truthy)
  have found: "last (session_json None # reported_ids (stdout out)) = last (reported_ids (stdout out))"
    using ne by simp
  have ok: "\<exists>reply. run_result None out = Inr (last (reported_ids (stdout out)), reply)"
    if tol: "list_all tolerated (stdout out)"
    using tr ne assms(1) by (simp add: run_result_tolerated [OF tol])
  have a: "run_result None out \<noteq> Inl (RuntimeError no_session_msg)"
  proof (cases "list_all tolerated (stdout out)")
    case True
    from ok [OF True] show ?thesis by auto
  next
    case False
    then show ?thesis by (simp add: run_result_not_tolerated)
  qed
  have c: "\<exists>reply. run_result None out = Inr (JStr s, reply)"
    if "list_all tolerated (stdout out) \<and> reported_ids post = []"
  proof -
    have "last (reported_ids (stdout out)) = JStr s" using ids that by simp
    then show ?thesis using ok that by auto
  qed
  show ?thesis using a ok c by blast
qed

text \<open>Witness for C4: a blank line, the event, and an agent message.\<close>

theorem thread_started_recognized_witness:
  "rc \<lparr>stdout = [Blank, thread_started (JStr ''abc''), agent_message (JStr ''hi'')],
       stderr = [], rc = 0\<rparr> = 0
   \<and> run_result None \<lparr>stdout = [Blank, thread_started (JStr ''abc''), agent_message (JStr ''hi'')],
                       stderr = [], rc = 0\<rparr> \<noteq> Inl (RuntimeError no_session_msg)
   \<and> (\<exists>reply. run_result None
          \<lparr>stdout = [Blank, thread_started (JStr ''abc''), agent_message (JStr ''hi'')],
           stderr = [], rc = 0\<rparr> = Inr (JStr ''abc'', reply))"
  using thread_started_recognized [of
      "\<lparr>stdout = [Blank, thread_started (JStr ''abc''), agent_message (JStr ''hi'')],
        stderr = [], rc = 0\<rparr>"
      "[Blank]" "[(''type'', JStr ''thread.started''), (''thread_id'', JStr ''abc'')]"
      "[agent_message (JStr ''hi'')]" "''abc''"]
  by (simp add: thread_started_def agent_message_def reported_ids_def agent_texts_def
        List.map_filter_simps py_get_def py_or_def)

text \<open>
  Claim C5, as stated, fails: when the last agent message has the empty string as its
  text, \<^verbatim>\<open>run\<close> returns the placeholder, not that text.
\<close>

theorem empty_agent_text_counterexample:
  "run_result (Some ''s'') \<lparr>stdout = [agent_message (JStr [])], stderr = [], rc = 0\<rparr>
     = Inr (JStr ''s'', no_agent_message)
   \<and> agent_texts [agent_message (JStr [])] = [[]]
   \<and> no_agent_message \<noteq> []"
  by (simp add: run_result_def session_json_def agent_message_def py_get_def py_or_def Let_def
        agent_texts_def List.map_filter_simps no_agent_message_def)

text \<open>
  Claim C5, amended. When \<^verbatim>\<open>run\<close> returns, its reply text is the text of the last
  \<^verbatim>\<open>item.completed\<close> event whose item is an \<^verbatim>\<open>agent_message\<close> with a string
  \<^verbatim>\<open>text\<close>, if there is such an event and that text is not empty, and the fixed
  placeholder otherwise. A blank line, a line that \<^verbatim>\<open>json.loads\<close> rejects and an
  event with any other \<^verbatim>\<open>type\<close> than the two recognized ones are skipped: with or
  without such a line, anywhere in the stream, \<^verbatim>\<open>run\<close> does the same.
\<close>

theorem reply_is_last_agent_message:
  "(run_result sid out = Inr (session, reply) \<longrightarrow>
      reply = (if agent_texts (stdout out) = [] \<or> last (agent_texts (stdout out)) = []
               then no_agent_message else last (agent_texts (stdout out))))
   \<and> (skipped l \<longrightarrow>
        run_result sid (out\<lparr>stdout := pre @ l # post\<rparr>)
          = run_result sid (out\<lparr>stdout := pre @ post\<rparr>))"
proof (intro conjI impI)
  assume ok: "run_result sid out = Inr (session, reply)"
  have tol: "list_all tolerated (stdout out)"
  proof (rule ccontr)
    assume "\<not> list_all tolerated (stdout out)"
    then have "run_result sid out = Inl AttributeError" by (rule run_result_not_tolerated)
    with ok show False by simp
  qed
  show "reply = (if agent_texts (stdout out) = [] \<or> last (agent_texts (stdout out)) = []
               then no_agent_message else last (agent_texts (stdout out)))"
    using ok unfolding run_result_tolerated [OF tol] by (auto split: if_splits)
next
  assume "skipped l"
  then have "consume (pre @ l # post) st = consume (pre @ post) st" for st
    by (simp add: consume_append consume_skipped split: sum.splits)
  then show "run_result sid (out\<lparr>stdout := pre @ l # post\<rparr>)
          = run_result sid (out\<lparr>stdout := pre @ post\<rparr>)"
    by (simp add: run_result_def split: sum.splits)
qed

text \<open>
  Witness for C5: two agent messages with an undecodable line between them; the reply is
  the second text, and the line in between changes nothing.
\<close>

theorem reply_is_last_agent_message_witness:
  "run_result (Some ''s'')
      \<lparr>stdout = [agent_message (JStr ''one''), Undecodable, agent_message (JStr ''two'')],
       stderr = [], rc = 0\<rparr> = Inr (JStr ''s'', ''two'')
   \<and> agent_texts [agent_message (JStr ''one''), Undecodable, agent_message (JStr ''two'')]
       = [''one'', ''two'']
   \<and> skipped Undecodable
   \<and> run_result (Some ''s'')
        \<lparr>stdout = [agent_message (JStr ''one''), Undecodable, agent_message (JStr ''two'')],
         stderr = [], rc = 0\<rparr>
       = run_result (Some ''s'')
        \<lparr>stdout = [agent_message (JStr ''one''), agent_message (JStr ''two'')],
         stderr = [], rc = 0\<rparr>"
proof -
  let ?out = "\<lparr>stdout = [agent_message (JStr ''one''), Undecodable, agent_message (JStr ''two'')],
       stderr = [], rc = 0\<rparr>"
  have run: "run_result (Some ''s'') ?out = Inr (JStr ''s'', ''two'')"
    by (simp add: run_result_def session_json_def agent_message_def reported_ids_def agent_texts_def
        List.map_filter_simps py_get_def py_or_def Let_def)
  have texts: "agent_texts [agent_message (JStr ''one''), Undecodable, agent_message (JStr ''two'')]
       = [''one'', ''two'']"
    by (simp add: agent_message_def reported_ids_def agent_texts_def
        List.map_filter_simps py_get_def py_or_def)
  have sk: "skipped Undecodable" by simp
  from reply_is_last_agent_message [of "Some ''s''" ?out "JStr ''s''" "''two''" Undecodable
      "[agent_message (JStr ''one'')]" "[agent_message (JStr ''two'')]"] sk
  have "run_result (Some ''s'') (?out\<lparr>stdout := [agent_message (JStr ''one'')] @ Undecodable # [agent_message (JStr ''two'')]\<rparr>)
          = run_result (Some ''s'') (?out\<lparr>stdout := [agent_message (JStr ''one'')] @ [agent_message (JStr ''two'')]\<rparr>)"
    by blast
  then show ?thesis using run texts sk by simp
qed

text \<open>
  Claim C10. An empty string as session id is treated as no session id.
  \<^verbatim>\<open>run_serialized\<close> and \<^verbatim>\<open>run\<close> each do exactly what they do without an id: no
  lock is taken and \<^verbatim>\<open>_locks\<close> is unchanged, and the process is started with the
  argument vector of a new session, which ends in \<^verbatim>\<open>-\<close> where the one of a resumed
  session ends in \<^verbatim>\<open>resume s -\<close>. If no line reports a session id the call never
  returns a result; with exit code 0 and no line that makes the loop body raise, what it
  raises is the missing-session error, whereas a non-empty id is returned as the session
  id in the same situation.
\<close>

theorem empty_session_id_as_none:
  "run_serialized self proc prompt (Some []) = run_serialized self proc prompt None
   \<and> run self proc prompt (Some []) = run self proc prompt None
   \<and> snd (run_serialized self proc prompt (Some [])) = (self, [Spawn (run_args self None)])
   \<and> run_args self (Some []) = run_args self None
   \<and> last (run_args self None) = ''-''
   \<and> (s \<noteq> [] \<longrightarrow> run_args self (Some s) = butlast (run_args self None) @ [''resume'', s, ''-''])
   \<and> (reported_ids (stdout (proc (run_args self None) prompt)) = [] \<longrightarrow>
        (\<forall>r. fst (run self proc prompt (Some [])) \<noteq> Inr r))
   \<and> (reported_ids (stdout (proc (run_args self None) prompt)) = []
        \<and> rc (proc (run_args self None) prompt) = 0
        \<and> list_all tolerated (stdout (proc (run_args self None) prompt)) \<longrightarrow>
        fst (run self proc prompt (Some [])) = Inl (RuntimeError no_session_msg))
   \<and> (s \<noteq> [] \<and> reported_ids (stdout (proc (run_args self (Some s)) prompt)) = []
        \<and> rc (proc (run_args self (Some s)) prompt) = 0
        \<and> list_all tolerated (stdout (proc (run_args self (Some s)) prompt)) \<longrightarrow>
        (\<exists>reply. fst (run self proc prompt (Some s)) = Inr (JStr s, reply)))"
proof -
  have args: "run_args self (Some []) = run_args self None" by (simp add: run_args_def)
  have res: "run_result (Some []) out = run_result None out" for out
  proof (cases "list_all tolerated (stdout out)")
    case True
    have "truthy (last (session_json (Some []) # reported_ids (stdout out)))
          = truthy (last (session_json None # reported_ids (stdout out)))"
      by (simp add: session_json_def)
    moreover have "truthy (last (session_json None # reported_ids (stdout out))) \<Longrightarrow>
          last (session_json (Some []) # reported_ids (stdout out))
          = last (session_json None # reported_ids (stdout out))"
      by (cases "reported_ids (stdout out) = []") (simp_all add: session_json_def)
    ultimately show ?thesis
      unfolding run_result_tolerated [OF True, of "Some []"] run_result_tolerated [OF True, of None]
      by auto
  next
    case False
    then show ?thesis by (simp add: run_result_not_tolerated)
  qed
  have r: "run self proc prompt (Some []) = run self proc prompt None"
    by (simp add: run_def Let_def args res)
  have rs: "run_serialized self proc prompt (Some []) = run_serialized self proc prompt None"
    by (simp add: run_serialized_def)
  have acts: "snd (run_serialized self proc prompt (Some [])) = (self, [Spawn (run_args self None)])"
    by (simp add: run_serialized_def run_def Let_def)
  have lst: "last (run_args self None) = ''-''" by (simp add: run_args_def)
  have resume: "run_args self (Some s) = butlast (run_args self None) @ [''resume'', s, ''-'']"
    if "s \<noteq> []"
    using that by (simp add: run_args_def butlast_append)
  let ?out = "proc (run_args self None) prompt"
  have never: "fst (run self proc prompt (Some [])) \<noteq> Inr r"
    if "reported_ids (stdout ?out) = []" for r
  proof (cases "list_all tolerated (stdout ?out)")
    case True
    have "\<not> truthy (last (session_json None # reported_ids (stdout ?out)))"
      using that by (simp add: session_json_def)
    then show ?thesis
      unfolding r by (simp add: run_def Let_def run_result_tolerated [OF True])
  next
    case False
    then show ?thesis unfolding r by (simp add: run_def Let_def run_result_not_tolerated)
  qed
  have missing: "fst (run self proc prompt (Some [])) = Inl (RuntimeError no_session_msg)"
    if "reported_ids (stdout ?out) = [] \<and> rc ?out = 0 \<and> list_all tolerated (stdout ?out)"
  proof -
    from that have tol: "list_all tolerated (stdout ?out)" by simp
    show ?thesis unfolding r using that
      by (simp add: run_def Let_def run_result_tolerated [OF tol] session_json_def)
  qed
  let ?outs = "proc (run_args self (Some s)) prompt"
  have known: "\<exists>reply. fst (run self proc prompt (Some s)) = Inr (JStr s, reply)"
    if "s \<noteq> [] \<and> reported_ids (stdout ?outs) = [] \<and> rc ?outs = 0
        \<and> list_all tolerated (stdout ?outs)"
  proof -
    from that have tol: "list_all tolerated (stdout ?outs)" by simp
    show ?thesis using that
      by (simp add: run_def Let_def run_result_tolerated [OF tol] session_json_def)
  qed
  show ?thesis using rs r acts args lst resume never missing known by blast
qed

text \<open>
  Witness for C10: the runner with the quiet process, called with the empty id and with
  the id \<^verbatim>\<open>sess\<close>.
\<close>

theorem empty_session_id_as_none_witness:
  "fst (run codex_runner quiet_process ''hello'' (Some [])) = Inl (RuntimeError no_session_msg)
   \<and> snd (run_serialized codex_runner quiet_process ''hello'' (Some []))
       = (codex_runner, [Spawn [''codex'', ''exec'', ''--json'', ''-'']])
   \<and> run_args codex_runner (Some ''sess'')
       = [''codex'', ''exec'', ''--json'', ''resume'', ''sess'', ''-'']
   \<and> (\<exists>reply. fst (run codex_runner quiet_process ''hello'' (Some ''sess''))
       = Inr (JStr ''sess'', reply))"
proof -
  have hyp: "reported_ids (stdout (quiet_process (run_args codex_runner None) ''hello'')) = []
        \<and> rc (quiet_process (run_args codex_runner None) ''hello'') = 0
        \<and> list_all tolerated (stdout (quiet_process (run_args codex_runner None) ''hello''))"
    by (simp add: quiet_process_def agent_message_def reported_ids_def agent_texts_def
        List.map_filter_simps py_get_def py_or_def)
  have hyp': "''sess'' \<noteq> []
        \<and> reported_ids (stdout (quiet_process (run_args codex_runner (Some ''sess'')) ''hello'')) = []
        \<and> rc (quiet_process (run_args codex_runner (Some ''sess'')) ''hello'') = 0
        \<and> list_all tolerated (stdout (quiet_process (run_args codex_runner (Some ''sess'')) ''hello''))"
    by (simp add: quiet_process_def agent_message_def reported_ids_def agent_texts_def
        List.map_filter_simps py_get_def py_or_def)
  note inst = empty_session_id_as_none [of codex_runner quiet_process "''hello''" "''sess''"]
  have a: "fst (run codex_runner quiet_process ''hello'' (Some [])) = Inl (RuntimeError no_session_msg)"
    using inst hyp by blast
  have b: "snd (run_serialized codex_runner quiet_process ''hello'' (Some []))
       = (codex_runner, [Spawn (run_args codex_runner None)])"
    using inst by blast
  have c: "\<exists>reply. fst (run codex_runner quiet_process ''hello'' (Some ''sess''))
       = Inr (JStr ''sess'', reply)"
    using inst hyp' by blast
  have args: "run_args codex_runner None = [''codex'', ''exec'', ''--json'', ''-'']"
      "run_args codex_runner (Some ''sess'')
       = [''codex'', ''exec'', ''--json'', ''resume'', ''sess'', ''-'']"
    by (simp_all add: run_args_def codex_runner_def)
  show ?thesis using a b c args by simp
qed

end
